theory Spec2Isabelle
  imports Complex_Main "HOL-Library.Word"
begin

unbundle bit_operations_syntax

section \<open>AxolotlSD: scalar types\<close>

text \<open>
  The fixed-width integers of \<^verbatim>\<open>axolotlsd.hpp\<close>. Arithmetic on them wraps, as C++
  unsigned arithmetic does. \<open>S32\<close> holds the two's-complement bits of a signed value
  (\<open>std::bit_cast<S32>\<close> keeps the bits); \<open>sint\<close> reads it.
\<close>

type_synonym U8 = "8 word"
type_synonym U16 = "16 word"
type_synonym U32 = "32 word"
type_synonym S32 = "32 word"
type_synonym song_tick_t = U32
type_synonym patch_data_t = "U8 list"

section \<open>Floating point\<close>

text \<open>
  \<open>F32\<close> is the platform's binary32. Its arithmetic is not code of the library, so the
  model takes it as a parameter: a record of the operations the source uses on \<open>float\<close>,
  over an arbitrary carrier \<open>'f\<close>. Every general theorem below holds for every such
  record, hence for the machine's rounding arithmetic.
  \<^item> \<open>f_bits\<close> is \<open>std::bit_cast<F32>\<close> of a 32-bit pattern; float literals are given by
    their bit patterns.
  \<^item> \<open>f_to_u32\<close> is \<open>static_cast<U32>\<close> of a float: truncation, and \<open>None\<close> where the
    truncated value is not a \<open>U32\<close> (undefined behaviour in C++).
  \<^item> \<open>f_of_u32\<close> and \<open>f_of_s32\<close> convert an unsigned and a signed integer to float.
  \<^item> \<open>f_times_pi\<close> is the product with \<open>std::numbers::pi\<close>, taken in \<open>double\<close> and
    narrowed to \<open>float\<close> when the voice is constructed.
\<close>

record 'f fpu =
  f_bits :: "U32 \<Rightarrow> 'f"
  f_add :: "'f \<Rightarrow> 'f \<Rightarrow> 'f"
  f_sub :: "'f \<Rightarrow> 'f \<Rightarrow> 'f"
  f_mul :: "'f \<Rightarrow> 'f \<Rightarrow> 'f"
  f_div :: "'f \<Rightarrow> 'f \<Rightarrow> 'f"
  f_less :: "'f \<Rightarrow> 'f \<Rightarrow> bool"
  f_fmod :: "'f \<Rightarrow> 'f \<Rightarrow> 'f"
  f_floor :: "'f \<Rightarrow> 'f"
  f_pow :: "'f \<Rightarrow> 'f \<Rightarrow> 'f"
  f_times_pi :: "'f \<Rightarrow> 'f"
  f_of_u32 :: "U32 \<Rightarrow> 'f"
  f_of_s32 :: "S32 \<Rightarrow> 'f"
  f_to_u32 :: "'f \<Rightarrow> U32 option"

text \<open>The float literals of the source, by bit pattern.\<close>

definition lit_0 :: "'f fpu \<Rightarrow> 'f" where "lit_0 fp = f_bits fp 0x00000000"
definition lit_1 :: "'f fpu \<Rightarrow> 'f" where "lit_1 fp = f_bits fp 0x3F800000"
definition lit_neg1 :: "'f fpu \<Rightarrow> 'f" where "lit_neg1 fp = f_bits fp 0xBF800000"
definition lit_2 :: "'f fpu \<Rightarrow> 'f" where "lit_2 fp = f_bits fp 0x40000000"
definition lit_12 :: "'f fpu \<Rightarrow> 'f" where "lit_12 fp = f_bits fp 0x41400000"
definition lit_32 :: "'f fpu \<Rightarrow> 'f" where "lit_32 fp = f_bits fp 0x42000000"
definition lit_69 :: "'f fpu \<Rightarrow> 'f" where "lit_69 fp = f_bits fp 0x428A0000"
definition lit_100 :: "'f fpu \<Rightarrow> 'f" where "lit_100 fp = f_bits fp 0x42C80000"
definition lit_127 :: "'f fpu \<Rightarrow> 'f" where "lit_127 fp = f_bits fp 0x42FE0000"
definition lit_128 :: "'f fpu \<Rightarrow> 'f" where "lit_128 fp = f_bits fp 0x43000000"
definition lit_4096 :: "'f fpu \<Rightarrow> 'f" where "lit_4096 fp = f_bits fp 0x45800000"

text \<open>\<^verbatim>\<open>constexpr static F32 A440 = 440.0f;\<close>\<close>

definition A440 :: "'f fpu \<Rightarrow> 'f" where "A440 fp = f_bits fp 0x43DC0000"

text \<open>\<^verbatim>\<open>constexpr static U16 CURRENT_VERSION = 0x0003;\<close>\<close>

definition CURRENT_VERSION :: U16 where "CURRENT_VERSION = 0x0003"

text \<open>
  \<open>std::clamp(v, lo, hi)\<close> as the standard library implements it:
  \<open>(v < lo) ? lo : (hi < v) ? hi : v\<close>. (The standard asks for a value that is not a
  NaN; the implementation returns a NaN as it is, both comparisons being false.)
\<close>

definition clamp :: "'f fpu \<Rightarrow> 'f \<Rightarrow> 'f \<Rightarrow> 'f \<Rightarrow> 'f" where
  "clamp fp v lo hi = (if f_less fp v lo then lo else if f_less fp hi v then hi else v)"

definition calculate_12tet :: "'f fpu \<Rightarrow> U8 \<Rightarrow> 'f \<Rightarrow> 'f" where
  "calculate_12tet fp n bend =
     f_mul fp
       (f_pow fp (lit_2 fp)
          (f_div fp (f_add fp (f_sub fp (f_of_u32 fp (ucast n)) (lit_69 fp)) bend) (lit_12 fp)))
       (A440 fp)"

definition calculate_mix :: "'f fpu \<Rightarrow> 'f \<Rightarrow> 'f \<Rightarrow> 'f \<Rightarrow> 'f" where
  "calculate_mix fp x y a = f_add fp (f_mul fp x (f_sub fp (lit_1 fp) a)) (f_mul fp y a)"

section \<open>Data model\<close>

text \<open>
  The \<open>command\<close> hierarchy of the header as one datatype; the payload fields in the
  order of the structs: \<open>command_note_on\<close> has channel, note, velocity;
  \<open>command_note_off\<close> the channel; \<open>command_pitchwheel\<close> channel and bend;
  \<open>command_program_change\<close> channel and program.
\<close>

datatype command =
    command_note_on U8 U8 U8
  | command_note_off U8
  | command_pitchwheel U8 S32
  | command_program_change U8 U8
  | command_patch_data
  | command_drum_data
  | command_version U16
  | command_rate U32
  | command_end_of_track

record 'f patch_base_t =
  waveform :: patch_data_t
  ratio :: 'f
  gain_L :: 'f
  gain_R :: 'f

record 'f patch_t = "'f patch_base_t" +
  loop_start :: U32
  loop_end :: U32

type_synonym 'f drum_t = "'f patch_base_t"
type_synonym 'f drum_map_t = "U8 \<rightharpoonup> 'f drum_t"

record 'f voice_single =
  velocity :: 'f
  phase_add_by :: 'f
  "note" :: U8
  phase :: 'f
  key :: bool
  active :: bool

text \<open>
  A \<open>std::unique_ptr<voice_group_base>\<close>: null, or owning a \<open>voice_group\<close> (its voices
  and its bend) or a \<open>drum_group\<close> (its voices).
\<close>

datatype 'f voice_group_base =
    nullptr
  | voice_group "'f voice_single list" 'f
  | drum_group "'f voice_single list"

text \<open>
  \<open>commands\<close> is a \<open>std::multimap\<close> keyed by tick. It is kept as the list of its
  entries in insertion order: the multimap keeps entries of one key in insertion order,
  and the player only reads it through \<open>equal_range\<close>, which is then the sublist of
  the entries with that key.
\<close>

record 'f song =
  version :: U16
  ticks_end :: song_tick_t
  ticks_per_second :: song_tick_t
  commands :: "(song_tick_t \<times> command) list"
  patches :: "U8 \<rightharpoonup> 'f patch_t"
  drums :: "'f drum_map_t"

record 'f environment =
  feedback_L :: 'f
  feedback_R :: 'f
  wet_L :: 'f
  wet_R :: 'f
  cursor_increment :: U16
  cursor_max :: U16

text \<open>
  The fixed-size arrays of the player (\<open>echo_buffer_L\<close>, \<open>echo_buffer_R\<close> of 65535
  floats, \<open>channels\<close> and \<open>patch_ids\<close> of 16 entries) are functions from the index;
  only the indices below the array's size belong to the array, and every access of the
  model checks the index as the source does (or does not).
\<close>

record 'f player =
  seconds_elapsed :: 'f
  seconds_end :: 'f
  frequency :: 'f
  max_voices :: U32
  on_voices :: U32
  echo_buffer_L :: "nat \<Rightarrow> 'f"
  echo_buffer_R :: "nat \<Rightarrow> 'f"
  echo_cursor :: U16
  env_params :: "'f environment option"
  cursor :: U32
  last_cursor :: "U32 option"
  current :: "'f song"
  in_stereo :: bool
  channels :: "nat \<Rightarrow> 'f voice_group_base"
  patch_ids :: "nat \<Rightarrow> U8 option"
  playback :: bool

text \<open>
  What the C++ raises or leaves undefined is a value of the model: the two
  \<open>std::runtime_error\<close>s, \<open>std::out_of_range\<close> (thrown by \<open>at\<close> of a map, vector or
  array), and undefined behaviour (an unchecked index past the end, a null pointer
  dereferenced, an integer remainder by zero, a float not representable cast to
  \<open>U32\<close>).
\<close>

datatype error =
    runtime_error_bad_magic
  | runtime_error_version_mismatch
  | out_of_range
  | undefined_behaviour

section \<open>The player: play and pause\<close>

text \<open>
  \<open>player::player(U32 count, U32 freq, bool stereo)\<close> with the default member
  initialisers. The constructor leaves \<open>seconds_end\<close> and the three integers of
  \<open>current\<close> uninitialised: they are the last four arguments.
\<close>

definition player_new ::
  "'f fpu \<Rightarrow> U32 \<Rightarrow> U32 \<Rightarrow> bool \<Rightarrow> 'f \<Rightarrow> U16 \<Rightarrow> U32 \<Rightarrow> U32 \<Rightarrow> 'f player" where
  "player_new fp count freq stereo se0 v0 te0 tps0 =
     \<lparr>seconds_elapsed = lit_0 fp, seconds_end = se0,
      frequency = f_div fp (lit_1 fp) (f_of_u32 fp freq),
      max_voices = count, on_voices = 0,
      echo_buffer_L = (\<lambda>k. lit_0 fp), echo_buffer_R = (\<lambda>k. lit_0 fp),
      echo_cursor = 0, env_params = None, cursor = 0, last_cursor = None,
      current = \<lparr>version = v0, ticks_end = te0, ticks_per_second = tps0, commands = [],
                 patches = Map.empty, drums = Map.empty\<rparr>,
      in_stereo = stereo, channels = (\<lambda>i. nullptr), patch_ids = (\<lambda>i. None),
      playback = False\<rparr>"

text \<open>
  \<open>channels[i].reset(new ...)\<close> in the loop of \<open>player::play\<close>, over the indices
  \<open>is\<close>. A null pointer is simply replaced. A pointer that owns a group has the group
  deleted through \<open>voice_group_base *\<close>; the base class declares no virtual destructor
  while the object is a \<open>voice_group\<close> or a \<open>drum_group\<close>, so that \<open>delete\<close> is
  undefined behaviour.
\<close>

fun reset_channels ::
  "'f fpu \<Rightarrow> nat list \<Rightarrow> (nat \<Rightarrow> 'f voice_group_base) \<Rightarrow> error + (nat \<Rightarrow> 'f voice_group_base)" where
  "reset_channels fp [] ch = Inr ch"
| "reset_channels fp (i # is) ch =
     (case ch i of
        nullptr \<Rightarrow>
          reset_channels fp is (ch(i := (if i = 9 then drum_group [] else voice_group [] (lit_0 fp))))
      | voice_group vs bend \<Rightarrow> Inl undefined_behaviour
      | drum_group vs \<Rightarrow> Inl undefined_behaviour)"

text \<open>
  \<open>player::play\<close>. An exception leaves the object as the statements before the \<open>throw\<close>
  made it, so the model returns the player together with the exception, if any. Where
  the reset of the channels is undefined, the player is returned as the two swaps left
  it; nothing can be said of what follows.
\<close>

definition play ::
  "'f fpu \<Rightarrow> 'f player \<Rightarrow> 'f song \<Rightarrow> 'f environment option \<Rightarrow> error option \<times> 'f player" where
  "play fp p nxt env =
     (let p1 = p\<lparr>env_params := env, current := nxt\<rparr> in
      case reset_channels fp [0..<16] (channels p1) of
        Inl e \<Rightarrow> (Some e, p1)
      | Inr ch \<Rightarrow>
          (let p2 = p1\<lparr>channels := ch\<rparr>;
               p3 = p2\<lparr>patch_ids := fold (\<lambda>i ids. ids(i := None)) [0..<16] (patch_ids p2)\<rparr>;
               p4 = p3\<lparr>seconds_elapsed := lit_0 fp\<rparr>;
               p5 = p4\<lparr>seconds_end :=
                      f_div fp (f_of_u32 fp (ticks_end (current p4)))
                        (f_of_u32 fp (ticks_per_second (current p4)))\<rparr>
           in if version (current p5) \<noteq> CURRENT_VERSION
              then (Some runtime_error_version_mismatch, p5)
              else (None, p5\<lparr>on_voices := 0, cursor := 0, echo_cursor := 0,
                              last_cursor := None, playback := True\<rparr>)))"

text \<open>
  Modelled from the spec: \<open>player::pause\<close> is declared in \<^verbatim>\<open>axolotlsd.hpp\<close> and has no
  definition in the sources at hand. The specification says: "\<open>pause()\<close>: sets
  \<open>playback = false\<close>. Does not clear buffers".
\<close>

definition pause :: "'f player \<Rightarrow> 'f player" where
  "pause p = p\<lparr>playback := False\<rparr>"

section \<open>Voice accumulation\<close>

text \<open>
  The body of the lambda of \<open>voice_group::accumulate_into\<close>, in two parts. \<open>fold_here\<close>
  is the \<open>if (can_loop && (here > patch.loop_end))\<close> block: \<open>None\<close> is the remainder by
  zero that \<open>here %= patch.loop_end - patch.loop_start\<close> takes when both loop points are
  equal. \<open>U32\<close> subtraction and addition wrap.
\<close>

definition fold_here :: "('f, 'a) patch_t_scheme \<Rightarrow> bool \<Rightarrow> U32 \<Rightarrow> U32 option" where
  "fold_here patch k here =
     (let can_loop = (loop_start patch \<noteq> 0xFFFFFFFF) in
      if can_loop \<and> here > loop_end patch then
        (if k then
           (if loop_end patch - loop_start patch = 0 then None
            else Some (((here - loop_start patch) mod (loop_end patch - loop_start patch))
                       + loop_start patch))
         else Some here)
      else Some here)"

text \<open>
  \<open>(static_cast<F32>(patch.waveform.at(here)) - 128.0f) / 128.0f\<close>; the byte is read only
  below \<open>waveform.size()\<close>.
\<close>

definition sample_at :: "'f fpu \<Rightarrow> patch_data_t \<Rightarrow> U32 \<Rightarrow> 'f" where
  "sample_at fp w here =
     f_div fp (f_sub fp (f_of_u32 fp (ucast (w ! unat here))) (lit_128 fp)) (lit_128 fp)"

definition voice_accumulate ::
  "'f fpu \<Rightarrow> 'f patch_t \<Rightarrow> 'f voice_single \<Rightarrow> 'f \<Rightarrow> 'f \<Rightarrow> error + ('f voice_single \<times> 'f \<times> 'f)" where
  "voice_accumulate fp patch v l r =
     (case f_to_u32 fp (f_floor fp (f_mul fp (ratio patch) (phase v))) of
        None \<Rightarrow> Inl undefined_behaviour
      | Some here0 \<Rightarrow>
          (case fold_here patch (key v) here0 of
             None \<Rightarrow> Inl undefined_behaviour
           | Some here \<Rightarrow>
               (let v1 = (if unat here \<ge> length (waveform patch) then v\<lparr>active := False\<rparr> else v);
                    sample = (if unat here \<ge> length (waveform patch) then lit_0 fp
                              else sample_at fp (waveform patch) here);
                    v2 = v1\<lparr>phase := f_add fp (phase v1) (phase_add_by v1)\<rparr>
                in Inr (v2,
                        f_add fp l (f_mul fp (f_mul fp sample (velocity v2)) (gain_L patch)),
                        f_add fp r (f_mul fp (f_mul fp sample (velocity v2)) (gain_R patch))))))"

text \<open>\<open>std::for_each\<close> over the voices: left to right, the sums threaded through.\<close>

fun voice_group_accumulate_into ::
  "'f fpu \<Rightarrow> 'f patch_t \<Rightarrow> 'f voice_single list \<Rightarrow> 'f \<Rightarrow> 'f
     \<Rightarrow> error + ('f voice_single list \<times> 'f \<times> 'f)" where
  "voice_group_accumulate_into fp patch [] l r = Inr ([], l, r)"
| "voice_group_accumulate_into fp patch (v # vs) l r =
     (case voice_accumulate fp patch v l r of
        Inl e \<Rightarrow> Inl e
      | Inr (v', l', r') \<Rightarrow>
          (case voice_group_accumulate_into fp patch vs l' r' of
             Inl e \<Rightarrow> Inl e
           | Inr (vs', l'', r'') \<Rightarrow> Inr (v' # vs', l'', r'')))"

text \<open>
  The body of the lambda of \<open>drum_group::accumulate_into\<close>: \<open>mapping.find(d.note)\<close>, no
  looping, no \<open>std::floor\<close>; a voice whose note has no drum is marked inactive and its
  phase is left alone.
\<close>

definition drum_accumulate ::
  "'f fpu \<Rightarrow> 'f drum_map_t \<Rightarrow> 'f voice_single \<Rightarrow> 'f \<Rightarrow> 'f \<Rightarrow> error + ('f voice_single \<times> 'f \<times> 'f)" where
  "drum_accumulate fp mapping d l r =
     (case mapping (note d) of
        Some patch \<Rightarrow>
          (case f_to_u32 fp (f_mul fp (ratio patch) (phase d)) of
             None \<Rightarrow> Inl undefined_behaviour
           | Some here \<Rightarrow>
               (let d1 = (if unat here \<ge> length (waveform patch) then d\<lparr>active := False\<rparr> else d);
                    sample = (if unat here \<ge> length (waveform patch) then lit_0 fp
                              else sample_at fp (waveform patch) here);
                    d2 = d1\<lparr>phase := f_add fp (phase d1) (phase_add_by d1)\<rparr>
                in Inr (d2,
                        f_add fp l (f_mul fp (f_mul fp sample (velocity d2)) (gain_L patch)),
                        f_add fp r (f_mul fp (f_mul fp sample (velocity d2)) (gain_R patch)))))
      | None \<Rightarrow>
          Inr (d\<lparr>active := False\<rparr>,
               f_add fp l (f_mul fp (f_mul fp (lit_0 fp) (velocity d)) (lit_0 fp)),
               f_add fp r (f_mul fp (f_mul fp (lit_0 fp) (velocity d)) (lit_0 fp))))"

fun drum_group_accumulate_into ::
  "'f fpu \<Rightarrow> 'f drum_map_t \<Rightarrow> 'f voice_single list \<Rightarrow> 'f \<Rightarrow> 'f
     \<Rightarrow> error + ('f voice_single list \<times> 'f \<times> 'f)" where
  "drum_group_accumulate_into fp mapping [] l r = Inr ([], l, r)"
| "drum_group_accumulate_into fp mapping (d # ds) l r =
     (case drum_accumulate fp mapping d l r of
        Inl e \<Rightarrow> Inl e
      | Inr (d', l', r') \<Rightarrow>
          (case drum_group_accumulate_into fp mapping ds l' r' of
             Inl e \<Rightarrow> Inl e
           | Inr (ds', l'', r'') \<Rightarrow> Inr (d' # ds', l'', r'')))"

section \<open>The player: one frame\<close>

text \<open>
  The voice that \<open>voices.emplace_back(ptr->velocity / 127.0f, phase, ptr->note)\<close>
  constructs: the three given members, and the defaults \<open>phase = 0.0f\<close>, \<open>key = true\<close>,
  \<open>active = true\<close>.
\<close>

definition new_voice :: "'f fpu \<Rightarrow> U8 \<Rightarrow> 'f \<Rightarrow> U8 \<Rightarrow> 'f voice_single" where
  "new_voice fp vel ph n =
     \<lparr>velocity = f_div fp (f_of_u32 fp (ucast vel)) (lit_127 fp), phase_add_by = ph,
      note = n, phase = lit_0 fp, key = True, active = True\<rparr>"

text \<open>
  \<open>std::find_if(voices.begin(), voices.end(), [](auto &&v) { return v.key; })\<close> followed by
  \<open>(*first_on).key = false\<close> when a voice was found.
\<close>

fun release_first :: "'f voice_single list \<Rightarrow> 'f voice_single list" where
  "release_first [] = []"
| "release_first (v # vs) = (if key v then v\<lparr>key := False\<rparr> # vs else v # release_first vs)"

text \<open>
  The lambda that \<open>handle_one\<close> applies to each event of the current tick: the \<open>switch\<close>
  on the event's type. \<open>channels[ptr->channel]\<close> and \<open>patch_ids[ptr->channel]\<close> are
  unchecked \<open>operator[]\<close> on arrays of 16 entries, so an index of 16 or more is undefined
  behaviour, and so is the call through a null group.
\<close>

fun dispatch :: "'f fpu \<Rightarrow> command \<Rightarrow> 'f player \<Rightarrow> error + 'f player" where
  "dispatch fp (command_note_on ch n vel) p =
     (if on_voices p < max_voices p then
        (if unat ch < 16 then
           (case channels p (unat ch) of
              nullptr \<Rightarrow> Inl undefined_behaviour
            | drum_group vs \<Rightarrow>
                Inr (p\<lparr>channels := (channels p)(unat ch :=
                       drum_group (vs @ [new_voice fp vel
                         (f_times_pi fp (f_mul fp (f_mul fp (A440 fp) (frequency p)) (lit_32 fp))) n]))\<rparr>)
            | voice_group vs bend \<Rightarrow>
                Inr (p\<lparr>channels := (channels p)(unat ch :=
                       voice_group (vs @ [new_voice fp vel
                         (f_mul fp (f_mul fp (calculate_12tet fp n bend) (frequency p)) (lit_100 fp)) n])
                         bend)\<rparr>))
         else Inl undefined_behaviour)
      else Inr p)"
| "dispatch fp (command_note_off ch) p =
     (if unat ch < 16 then
        (case channels p (unat ch) of
           nullptr \<Rightarrow> Inl undefined_behaviour
         | drum_group vs \<Rightarrow> Inr (p\<lparr>channels := (channels p)(unat ch := drum_group (release_first vs))\<rparr>)
         | voice_group vs bend \<Rightarrow>
             Inr (p\<lparr>channels := (channels p)(unat ch := voice_group (release_first vs) bend)\<rparr>))
      else Inl undefined_behaviour)"
| "dispatch fp (command_pitchwheel ch b) p =
     (if unat ch < 16 then
        (case channels p (unat ch) of
           nullptr \<Rightarrow> Inl undefined_behaviour
         | drum_group vs \<Rightarrow> Inr p
         | voice_group vs bend \<Rightarrow>
             (let bend' = f_div fp (f_of_s32 fp b) (lit_4096 fp) in
              Inr (p\<lparr>channels := (channels p)(unat ch :=
                     voice_group
                       (map (\<lambda>c. c\<lparr>phase_add_by :=
                                 f_mul fp (f_mul fp (calculate_12tet fp (note c) bend') (frequency p))
                                   (lit_100 fp)\<rparr>) vs)
                       bend')\<rparr>)))
      else Inl undefined_behaviour)"
| "dispatch fp (command_program_change ch prog) p =
     (if unat ch < 16 then Inr (p\<lparr>patch_ids := (patch_ids p)(unat ch := Some prog)\<rparr>)
      else Inl undefined_behaviour)"
| "dispatch fp command_patch_data p = Inr p"
| "dispatch fp command_drum_data p = Inr p"
| "dispatch fp (command_version v) p = Inr p"
| "dispatch fp (command_rate r) p = Inr p"
| "dispatch fp command_end_of_track p = Inr p"

text \<open>\<open>current.commands.equal_range(cursor)\<close>: the entries of that tick, in order.\<close>

definition equal_range :: "(song_tick_t \<times> command) list \<Rightarrow> song_tick_t \<Rightarrow> command list" where
  "equal_range cs t = map snd (filter (\<lambda>e. fst e = t) cs)"

text \<open>\<open>std::for_each(begin, end, ...)\<close> over the events; an exception ends it.\<close>

fun dispatch_all :: "'f fpu \<Rightarrow> command list \<Rightarrow> 'f player \<Rightarrow> error + 'f player" where
  "dispatch_all fp [] p = Inr p"
| "dispatch_all fp (e # es) p =
     (case dispatch fp e p of Inl err \<Rightarrow> Inl err | Inr p' \<Rightarrow> dispatch_all fp es p')"

text \<open>
  One round of the loop \<open>for (auto i = 0; i < 16; i++)\<close> of \<open>handle_one\<close>: reap the
  inactive voices of channel \<open>i\<close>, then mix the channel and count its voices.
  \<open>channels.at(i)\<close> and \<open>patch_ids.at(i)\<close> are checked, \<open>current.patches.at\<close> throws
  \<open>std::out_of_range\<close> for a program that is not a key of the map, and
  \<open>on_voices += channel->voices.size()\<close> wraps at 32 bits.
\<close>

definition mix_channel ::
  "'f fpu \<Rightarrow> nat \<Rightarrow> 'f player \<times> 'f \<times> 'f \<Rightarrow> error + ('f player \<times> 'f \<times> 'f)" where
  "mix_channel fp i s =
     (case s of (p, l, r) \<Rightarrow>
        if \<not> i < 16 then Inl out_of_range
        else
          (case channels p i of
             nullptr \<Rightarrow> Inl undefined_behaviour
           | drum_group vs \<Rightarrow>
               (case drum_group_accumulate_into fp (drums (current p)) (filter active vs) l r of
                  Inl e \<Rightarrow> Inl e
                | Inr (vs', l', r') \<Rightarrow>
                    Inr (p\<lparr>channels := (channels p)(i := drum_group vs'),
                           on_voices := on_voices p + of_nat (length vs')\<rparr>, l', r'))
           | voice_group vs bend \<Rightarrow>
               (case patch_ids p i of
                  None \<Rightarrow> Inr (p\<lparr>channels := (channels p)(i := voice_group (filter active vs) bend)\<rparr>, l, r)
                | Some prog \<Rightarrow>
                    (case patches (current p) prog of
                       None \<Rightarrow> Inl out_of_range
                     | Some patch \<Rightarrow>
                         (case voice_group_accumulate_into fp patch (filter active vs) l r of
                            Inl e \<Rightarrow> Inl e
                          | Inr (vs', l', r') \<Rightarrow>
                              Inr (p\<lparr>channels := (channels p)(i := voice_group vs' bend),
                                     on_voices := on_voices p + of_nat (length vs')\<rparr>, l', r'))))))"

fun mix_channels ::
  "'f fpu \<Rightarrow> nat list \<Rightarrow> 'f player \<times> 'f \<times> 'f \<Rightarrow> error + ('f player \<times> 'f \<times> 'f)" where
  "mix_channels fp [] s = Inr s"
| "mix_channels fp (i # is) s =
     (case mix_channel fp i s of Inl e \<Rightarrow> Inl e | Inr s' \<Rightarrow> mix_channels fp is s')"

text \<open>
  \<open>player::handle_one\<close>. The cursor is \<open>static_cast<U32>(current.ticks_per_second *
  seconds_elapsed)\<close>, a float product cast back to \<open>U32\<close>.
\<close>

definition handle_one :: "'f fpu \<Rightarrow> 'f player \<Rightarrow> 'f \<Rightarrow> 'f \<Rightarrow> error + ('f player \<times> 'f \<times> 'f)" where
  "handle_one fp p l r =
     (case f_to_u32 fp (f_mul fp (f_of_u32 fp (ticks_per_second (current p))) (seconds_elapsed p)) of
        None \<Rightarrow> Inl undefined_behaviour
      | Some c \<Rightarrow>
          (let p1 = p\<lparr>cursor := c\<rparr> in
           case (if (case last_cursor p1 of None \<Rightarrow> True | Some lc \<Rightarrow> c > lc)
                 then (case dispatch_all fp (equal_range (commands (current p1)) c) p1 of
                         Inl e \<Rightarrow> Inl e
                       | Inr p2 \<Rightarrow> Inr (p2\<lparr>last_cursor := Some c\<rparr>))
                 else Inr p1) of
             Inl e \<Rightarrow> Inl e
           | Inr p3 \<Rightarrow> mix_channels fp [0..<16] (p3\<lparr>on_voices := 0\<rparr>, l, r)))"

text \<open>
  \<open>player::maybe_echo_one\<close>. The buffers have 65535 entries and are indexed
  unchecked; \<open>echo_cursor += env.cursor_increment\<close> wraps at 16 bits before
  \<open>echo_cursor %= env.cursor_max\<close>, an integer remainder that is undefined for
  \<open>cursor_max = 0\<close>.
\<close>

definition maybe_echo_one :: "'f fpu \<Rightarrow> 'f player \<Rightarrow> 'f \<Rightarrow> 'f \<Rightarrow> error + ('f player \<times> 'f \<times> 'f)" where
  "maybe_echo_one fp p l r =
     (case env_params p of
        None \<Rightarrow> Inr (p, l, r)
      | Some env \<Rightarrow>
          (let k = unat (echo_cursor p) in
           if \<not> k < 65535 then Inl undefined_behaviour
           else
             (let eL = clamp fp (f_mul fp (f_add fp (echo_buffer_L p k) l) (feedback_L env))
                         (lit_neg1 fp) (lit_1 fp);
                  eR = clamp fp (f_mul fp (f_add fp (echo_buffer_R p k) r) (feedback_R env))
                         (lit_neg1 fp) (lit_1 fp);
                  l' = calculate_mix fp l eL (wet_L env);
                  r' = calculate_mix fp r eR (wet_R env)
              in if cursor_max env = 0 then Inl undefined_behaviour
                 else Inr (p\<lparr>echo_buffer_L := (echo_buffer_L p)(k := eL),
                             echo_buffer_R := (echo_buffer_R p)(k := eR),
                             echo_cursor := (echo_cursor p + cursor_increment env) mod cursor_max env\<rparr>,
                           l', r'))))"

section \<open>The player: tick\<close>

text \<open>
  The part of the loop body that the stereo and the mono loop of \<open>player::tick\<close> share
  word for word: \<open>l\<close> and \<open>r\<close> start at \<open>0.0f\<close>; when playing, \<open>handle_one\<close>, then
  \<open>seconds_elapsed += frequency\<close> and the wrap by \<open>std::fmod\<close>; then \<open>maybe_echo_one\<close>.
\<close>

definition render_frame :: "'f fpu \<Rightarrow> 'f player \<Rightarrow> error + ('f player \<times> 'f \<times> 'f)" where
  "render_frame fp p =
     (case (if playback p
            then (case handle_one fp p (lit_0 fp) (lit_0 fp) of
                    Inl e \<Rightarrow> Inl e
                  | Inr (p1, l, r) \<Rightarrow>
                      (let p2 = p1\<lparr>seconds_elapsed := f_add fp (seconds_elapsed p1) (frequency p1)\<rparr> in
                       if f_less fp (seconds_end p2) (seconds_elapsed p2)
                       then Inr (p2\<lparr>seconds_elapsed := f_fmod fp (seconds_elapsed p2) (seconds_end p2),
                                    last_cursor := None\<rparr>, l, r)
                       else Inr (p2, l, r)))
            else Inr (p, lit_0 fp, lit_0 fp)) of
        Inl e \<Rightarrow> Inl e
      | Inr (p3, l, r) \<Rightarrow> maybe_echo_one fp p3 l r)"

text \<open>
  The two loops over a buffer of \<open>n\<close> slots; the result is the buffer as written. In
  stereo the loop steps by two and writes \<open>audio[i + 0]\<close> and \<open>audio[i + 1]\<close> unchecked,
  so a last odd slot makes it write past the end.
\<close>

fun tick_stereo :: "'f fpu \<Rightarrow> 'f player \<Rightarrow> nat \<Rightarrow> error + ('f player \<times> 'f list)" where
  "tick_stereo fp p 0 = Inr (p, [])"
| "tick_stereo fp p (Suc 0) =
     (case render_frame fp p of Inl e \<Rightarrow> Inl e | Inr s \<Rightarrow> Inl undefined_behaviour)"
| "tick_stereo fp p (Suc (Suc n)) =
     (case render_frame fp p of
        Inl e \<Rightarrow> Inl e
      | Inr (p', l, r) \<Rightarrow>
          (case tick_stereo fp p' n of
             Inl e \<Rightarrow> Inl e
           | Inr (p'', out) \<Rightarrow>
               Inr (p'', clamp fp l (lit_neg1 fp) (lit_1 fp) # clamp fp r (lit_neg1 fp) (lit_1 fp) # out)))"

fun tick_mono :: "'f fpu \<Rightarrow> 'f player \<Rightarrow> nat \<Rightarrow> error + ('f player \<times> 'f list)" where
  "tick_mono fp p 0 = Inr (p, [])"
| "tick_mono fp p (Suc n) =
     (case render_frame fp p of
        Inl e \<Rightarrow> Inl e
      | Inr (p', l, r) \<Rightarrow>
          (case tick_mono fp p' n of
             Inl e \<Rightarrow> Inl e
           | Inr (p'', out) \<Rightarrow>
               Inr (p'', clamp fp (f_div fp (f_add fp l r) (lit_2 fp)) (lit_neg1 fp) (lit_1 fp) # out)))"

text \<open>
  \<open>player::tick\<close> on a buffer of \<open>n\<close> slots. The loop counter is an \<open>int\<close>
  (\<open>auto i = 0\<close>), so a buffer that makes it step past \<open>INT_MAX\<close> is undefined
  behaviour.
\<close>

definition tick :: "'f fpu \<Rightarrow> 'f player \<Rightarrow> nat \<Rightarrow> error + ('f player \<times> 'f list)" where
  "tick fp p n =
     (if in_stereo p
      then (if n > 2147483646 then Inl undefined_behaviour else tick_stereo fp p n)
      else (if n > 2147483647 then Inl undefined_behaviour else tick_mono fp p n))"

section \<open>The song decoder\<close>

text \<open>\<^verbatim>\<open>constexpr static U32 MAGIC = 0x41585344; // "AXSD"\<close>\<close>

definition MAGIC :: U32 where "MAGIC = 0x41585344"

text \<open>
  The table \<open>byte_sizes\<close>: the payload size of each tag, with \<open>sizeof(song_tick_t) = 4\<close>,
  \<open>sizeof(U32) = sizeof(F32) = 4\<close>, \<open>sizeof(U16) = 2\<close>. \<open>byte_sizes.at\<close> throws
  \<open>std::out_of_range\<close> for any other byte.
\<close>

definition byte_sizes :: "U8 \<Rightarrow> nat option" where
  "byte_sizes tag =
     (if tag = 0x01 then Some (4 + 3)
      else if tag = 0x02 then Some (4 + 1)
      else if tag = 0x03 then Some (4 + 1 + 4)
      else if tag = 0x04 then Some (4 + 2)
      else if tag = 0x80 then Some (1 + 4 + 4 + 4 + 4 * 3)
      else if tag = 0x81 then Some (1 + 4 + 4 * 3)
      else if tag = 0xFC then Some 2
      else if tag = 0xFD then Some 4
      else if tag = 0xFE then Some 4
      else None)"

text \<open>
  \<open>(b[0] << 0) | (b[1] << 8) | (b[2] << 16) | (b[3] << 24)\<close> over four bytes widened to
  \<open>U32\<close>, taken from the payload at offset \<open>k\<close>.
\<close>

definition le32 :: "U8 list \<Rightarrow> nat \<Rightarrow> U32" where
  "le32 cd k =
     (ucast (cd ! k)) OR push_bit 8 (ucast (cd ! (k + 1))) OR push_bit 16 (ucast (cd ! (k + 2)))
       OR push_bit 24 (ucast (cd ! (k + 3)))"

definition le16 :: "U8 list \<Rightarrow> nat \<Rightarrow> U16" where
  "le16 cd k = (ucast (cd ! k)) OR push_bit 8 (ucast (cd ! (k + 1)))"

text \<open>\<open>std::map::insert\<close> keeps the entry of a key that is already there.\<close>

definition map_insert :: "('k \<rightharpoonup> 'v) \<Rightarrow> 'k \<Rightarrow> 'v \<Rightarrow> ('k \<rightharpoonup> 'v)" where
  "map_insert m k v = (case m k of None \<Rightarrow> m(k \<mapsto> v) | Some old \<Rightarrow> m)"

text \<open>\<open>the_song.commands.emplace(tick, command_ptr)\<close>.\<close>

definition emplace :: "'f song \<Rightarrow> song_tick_t \<Rightarrow> command \<Rightarrow> 'f song" where
  "emplace s t c = s\<lparr>commands := commands s @ [(t, c)]\<rparr>"

text \<open>\<open>song{}\<close>: the three integers are value-initialised, the containers empty.\<close>

definition song_init :: "'f song" where
  "song_init = \<lparr>version = 0, ticks_end = 0, ticks_per_second = 0, commands = [],
                patches = Map.empty, drums = Map.empty\<rparr>"

text \<open>
  The \<open>switch (what_value)\<close> of \<open>song::load\<close> on one record. \<open>cd\<close> is \<open>continue_data\<close>, the
  payload of \<open>byte_sizes\<close> bytes in stream order; the handlers pop it front to back, so
  each field sits at a fixed offset. \<open>rest\<close> is the stream after the payload, from which
  the patch and drum handlers read \<open>width\<close> waveform bytes with \<open>data.at(++where)\<close>
  (\<open>std::out_of_range\<close> when the stream is shorter; a failing allocation of
  \<open>waveform.resize\<close> is not modelled). The result is the song and the number of waveform
  bytes consumed.
\<close>

definition decode_record ::
  "'f fpu \<Rightarrow> U8 \<Rightarrow> U8 list \<Rightarrow> U8 list \<Rightarrow> 'f song \<Rightarrow> error + ('f song \<times> nat)" where
  "decode_record fp tag cd rest s =
     (if tag = 0x81 then
        (let drum = cd ! 0; width_calc = le32 cd 1 in
         if length rest < unat width_calc then Inl out_of_range
         else
           (let drum_data = \<lparr>waveform = take (unat width_calc) rest,
                             ratio = f_bits fp (le32 cd 5),
                             gain_L = f_bits fp (le32 cd 9),
                             gain_R = f_bits fp (le32 cd 13)\<rparr>
            in Inr (emplace (s\<lparr>drums := map_insert (drums s) drum drum_data\<rparr>) 0 command_drum_data,
                    unat width_calc)))
      else if tag = 0x80 then
        (let patch = cd ! 0; width_calc = le32 cd 1 in
         if length rest < unat width_calc then Inl out_of_range
         else
           (let patch_data = \<lparr>waveform = take (unat width_calc) rest,
                              ratio = f_bits fp (le32 cd 13),
                              gain_L = f_bits fp (le32 cd 17),
                              gain_R = f_bits fp (le32 cd 21),
                              loop_start = le32 cd 5,
                              loop_end = le32 cd 9\<rparr>
            in Inr (emplace (s\<lparr>patches := map_insert (patches s) patch patch_data\<rparr>) 0 command_patch_data,
                    unat width_calc)))
      else if tag = 0x01 then
        Inr (emplace s (le32 cd 0) (command_note_on (cd ! 4) (cd ! 5) (cd ! 6)), 0)
      else if tag = 0x02 then
        Inr (emplace s (le32 cd 0) (command_note_off (cd ! 4)), 0)
      else if tag = 0x03 then
        Inr (emplace s (le32 cd 0) (command_pitchwheel (cd ! 4) (le32 cd 5)), 0)
      else if tag = 0x04 then
        Inr (emplace s (le32 cd 0) (command_program_change (cd ! 4) (cd ! 5)), 0)
      else if tag = 0xFC then
        Inr (emplace (s\<lparr>version := le16 cd 0\<rparr>) 0 (command_version (le16 cd 0)), 0)
      else if tag = 0xFD then
        Inr (emplace (s\<lparr>ticks_per_second := le32 cd 0\<rparr>) 0 (command_rate (le32 cd 0)), 0)
      else if tag = 0xFE then
        Inr ((emplace s (ticks_end s) command_end_of_track)\<lparr>ticks_end := le32 cd 0\<rparr>, 0)
      else Inr (s, 0))"

text \<open>
  The loop \<open>while (where < end)\<close>, on the stream from \<open>where\<close> on: the tag byte, its
  payload (\<open>data.at\<close> throws \<open>std::out_of_range\<close> when the stream ends inside it), the
  record, then on to the byte after the record.
\<close>

fun load_records :: "'f fpu \<Rightarrow> U8 list \<Rightarrow> 'f song \<Rightarrow> error + 'f song" where
  "load_records fp [] s = Inr s"
| "load_records fp (tag # bytes) s =
     (case byte_sizes tag of
        None \<Rightarrow> Inl out_of_range
      | Some n \<Rightarrow>
          if length bytes < n then Inl out_of_range
          else
            (case decode_record fp tag (take n bytes) (drop n bytes) s of
               Inl e \<Rightarrow> Inl e
             | Inr (s', k) \<Rightarrow> load_records fp (drop k (drop n bytes)) s'))"

text \<open>
  \<open>song::load\<close>. \<open>data[0]\<close> to \<open>data[3]\<close> are read unchecked; the magic is assembled
  big-endian.
\<close>

definition load :: "'f fpu \<Rightarrow> U8 list \<Rightarrow> error + 'f song" where
  "load fp data =
     (if length data < 4 then Inl undefined_behaviour
      else
        (let magic_concat =
               (ucast (data ! 3) :: U32) OR push_bit 8 (ucast (data ! 2))
                 OR push_bit 16 (ucast (data ! 1)) OR push_bit 24 (ucast (data ! 0))
         in if magic_concat \<noteq> MAGIC then Inl runtime_error_bad_magic
            else load_records fp (drop 4 data) song_init))"

section \<open>A floating-point unit to run the model on\<close>

text \<open>
  Closed evaluations of the model need one concrete \<open>fpu\<close>. \<open>exact_fpu\<close> follows
  IEEE 754 on the special values (infinities and NaN: how they arise, propagate and
  compare) and computes exactly, without rounding, on finite values; the two zeros are
  one value. On inputs whose intermediate results are all representable in binary32,
  which is how the evaluations below are chosen, it computes what the machine computes.
\<close>

datatype ieee = Fin real | Inf_pos | Inf_neg | NaN

text \<open>\<open>std::bit_cast<F32>\<close>: sign bit, eight exponent bits, 23 fraction bits.\<close>

definition ieee_bits :: "U32 \<Rightarrow> ieee" where
  "ieee_bits w =
     (let sgn = (if bit w 31 then - 1 else 1 :: real);
          e = unat (drop_bit 23 w AND 0xFF);
          m = unat (w AND 0x7FFFFF)
      in if e = 255 then (if m = 0 then (if bit w 31 then Inf_neg else Inf_pos) else NaN)
         else if e = 0 then Fin (sgn * real m / 2 ^ 149)
         else if e < 150 then Fin (sgn * real (2 ^ 23 + m) / 2 ^ (150 - e))
         else Fin (sgn * real (2 ^ 23 + m) * 2 ^ (e - 150)))"

fun ieee_neg :: "ieee \<Rightarrow> ieee" where
  "ieee_neg (Fin a) = Fin (- a)"
| "ieee_neg Inf_pos = Inf_neg"
| "ieee_neg Inf_neg = Inf_pos"
| "ieee_neg NaN = NaN"

fun ieee_add :: "ieee \<Rightarrow> ieee \<Rightarrow> ieee" where
  "ieee_add (Fin a) (Fin b) = Fin (a + b)"
| "ieee_add NaN y = NaN"
| "ieee_add x NaN = NaN"
| "ieee_add Inf_pos Inf_neg = NaN"
| "ieee_add Inf_neg Inf_pos = NaN"
| "ieee_add Inf_pos y = Inf_pos"
| "ieee_add Inf_neg y = Inf_neg"
| "ieee_add x Inf_pos = Inf_pos"
| "ieee_add x Inf_neg = Inf_neg"

definition ieee_sub :: "ieee \<Rightarrow> ieee \<Rightarrow> ieee" where
  "ieee_sub x y = ieee_add x (ieee_neg y)"

text \<open>The sign of a value, for products and quotients with an infinity.\<close>

fun ieee_sign :: "ieee \<Rightarrow> real" where
  "ieee_sign (Fin a) = (if a < 0 then - 1 else 1)"
| "ieee_sign Inf_pos = 1"
| "ieee_sign Inf_neg = - 1"
| "ieee_sign NaN = 1"

definition ieee_inf :: "real \<Rightarrow> ieee" where
  "ieee_inf s = (if s < 0 then Inf_neg else Inf_pos)"

fun ieee_mul :: "ieee \<Rightarrow> ieee \<Rightarrow> ieee" where
  "ieee_mul (Fin a) (Fin b) = Fin (a * b)"
| "ieee_mul NaN y = NaN"
| "ieee_mul x NaN = NaN"
| "ieee_mul (Fin a) y = (if a = 0 then NaN else ieee_inf (ieee_sign (Fin a) * ieee_sign y))"
| "ieee_mul x (Fin b) = (if b = 0 then NaN else ieee_inf (ieee_sign x * ieee_sign (Fin b)))"
| "ieee_mul x y = ieee_inf (ieee_sign x * ieee_sign y)"

fun ieee_div :: "ieee \<Rightarrow> ieee \<Rightarrow> ieee" where
  "ieee_div (Fin a) (Fin b) =
     (if b \<noteq> 0 then Fin (a / b) else if a = 0 then NaN else ieee_inf (ieee_sign (Fin a)))"
| "ieee_div NaN y = NaN"
| "ieee_div x NaN = NaN"
| "ieee_div (Fin a) y = Fin 0"
| "ieee_div x (Fin b) = ieee_inf (ieee_sign x * ieee_sign (Fin b))"
| "ieee_div x y = NaN"

fun ieee_less :: "ieee \<Rightarrow> ieee \<Rightarrow> bool" where
  "ieee_less (Fin a) (Fin b) = (a < b)"
| "ieee_less NaN y = False"
| "ieee_less x NaN = False"
| "ieee_less Inf_pos y = False"
| "ieee_less x Inf_neg = False"
| "ieee_less x y = True"

text \<open>\<open>std::fmod\<close>: the remainder of the quotient truncated towards zero.\<close>

fun ieee_fmod :: "ieee \<Rightarrow> ieee \<Rightarrow> ieee" where
  "ieee_fmod (Fin a) (Fin b) =
     (if b = 0 then NaN
      else Fin (a - b * sgn (a / b) * real_of_int \<lfloor>\<bar>a / b\<bar>\<rfloor>))"
| "ieee_fmod NaN y = NaN"
| "ieee_fmod x NaN = NaN"
| "ieee_fmod (Fin a) y = Fin a"
| "ieee_fmod x y = NaN"

fun ieee_floor :: "ieee \<Rightarrow> ieee" where
  "ieee_floor (Fin a) = Fin (real_of_int \<lfloor>a\<rfloor>)"
| "ieee_floor x = x"

text \<open>\<open>std::pow\<close>, for a base above one (the source raises \<open>2.0f\<close> only).\<close>

fun ieee_pow :: "ieee \<Rightarrow> ieee \<Rightarrow> ieee" where
  "ieee_pow (Fin a) (Fin b) = Fin (a powr b)"
| "ieee_pow (Fin a) Inf_pos = Inf_pos"
| "ieee_pow (Fin a) Inf_neg = Fin 0"
| "ieee_pow x y = NaN"

fun ieee_times_pi :: "ieee \<Rightarrow> ieee" where
  "ieee_times_pi (Fin a) = Fin (a * pi)"
| "ieee_times_pi x = x"

text \<open>
  \<open>static_cast<U32>\<close>: the fraction is dropped; defined only when the result is a
  \<open>U32\<close>.
\<close>

fun ieee_to_u32 :: "ieee \<Rightarrow> U32 option" where
  "ieee_to_u32 (Fin a) =
     (if - 1 < a \<and> a < 4294967296 then Some (if a < 0 then 0 else word_of_int \<lfloor>a\<rfloor>) else None)"
| "ieee_to_u32 x = None"

definition exact_fpu :: "ieee fpu" where
  "exact_fpu =
     \<lparr>f_bits = ieee_bits, f_add = ieee_add, f_sub = ieee_sub, f_mul = ieee_mul,
      f_div = ieee_div, f_less = ieee_less, f_fmod = ieee_fmod, f_floor = ieee_floor,
      f_pow = ieee_pow, f_times_pi = ieee_times_pi,
      f_of_u32 = (\<lambda>w. Fin (real (unat w))),
      f_of_s32 = (\<lambda>w. Fin (real_of_int (sint w))),
      f_to_u32 = ieee_to_u32\<rparr>"

section \<open>Counting voices\<close>

text \<open>\<open>voices\<close> of the group a channel points to (none behind a null pointer).\<close>

fun voices :: "'f voice_group_base \<Rightarrow> 'f voice_single list" where
  "voices nullptr = []"
| "voices (voice_group vs bend) = vs"
| "voices (drum_group vs) = vs"

text \<open>The number of voices with \<open>active == true\<close>, summed across the 16 channels.\<close>

definition active_voices :: "'f player \<Rightarrow> nat" where
  "active_voices p = (\<Sum>i\<leftarrow>[0..<16]. length (filter active (voices (channels p i))))"

text \<open>
  The channels that \<open>handle_one\<close> mixes: the drum group, and a voice group whose
  \<open>patch_ids\<close> entry is set. \<open>counted\<close> is \<open>voices.size()\<close> of such a channel, and
  \<open>mixed_voices\<close> the sum over the 16 channels.
\<close>

definition is_mixed :: "'f player \<Rightarrow> nat \<Rightarrow> bool" where
  "is_mixed p i =
     (case channels p i of
        nullptr \<Rightarrow> False
      | drum_group vs \<Rightarrow> True
      | voice_group vs bend \<Rightarrow> patch_ids p i \<noteq> None)"

definition counted :: "'f player \<Rightarrow> nat \<Rightarrow> nat" where
  "counted p i = (if is_mixed p i then length (voices (channels p i)) else 0)"

definition mixed_voices :: "'f player \<Rightarrow> nat" where
  "mixed_voices p = (\<Sum>i\<leftarrow>[0..<16]. counted p i)"

section \<open>The command list as a parameter of a frame\<close>



section \<open>Output range and rendered frames\<close>

text \<open>
  \<open>x\<close> lies in \<open>[-1.0, 1.0]\<close>: \<open>-1.0f \<le> x\<close> and \<open>x \<le> 1.0f\<close>, with \<open>a \<le> b\<close> as \<open>a < b\<close> or
  \<open>a = b\<close>. Two floats are comparable when one is below the other or they are the same
  value; a NaN is comparable with no number.
\<close>

definition comparable :: "'f fpu \<Rightarrow> 'f \<Rightarrow> 'f \<Rightarrow> bool" where
  "comparable fp a b = (f_less fp a b \<or> a = b \<or> f_less fp b a)"

definition in_unit_range :: "'f fpu \<Rightarrow> 'f \<Rightarrow> bool" where
  "in_unit_range fp x =
     ((f_less fp (lit_neg1 fp) x \<or> x = lit_neg1 fp) \<and> (f_less fp x (lit_1 fp) \<or> x = lit_1 fp))"

text \<open>
  The left/right pairs of \<open>k\<close> consecutive frames, as \<open>render_frame\<close> leaves them before
  they are clamped and written; and the value each slot is computed from: \<open>l\<close> and \<open>r\<close>
  in stereo, \<open>(l + r) / 2.0f\<close> in mono.
\<close>

fun render_frames :: "'f fpu \<Rightarrow> 'f player \<Rightarrow> nat \<Rightarrow> error + ('f player \<times> ('f \<times> 'f) list)" where
  "render_frames fp p 0 = Inr (p, [])"
| "render_frames fp p (Suc k) =
     (case render_frame fp p of
        Inl e \<Rightarrow> Inl e
      | Inr (p', l, r) \<Rightarrow>
          (case render_frames fp p' k of
             Inl e \<Rightarrow> Inl e
           | Inr (p'', fs) \<Rightarrow> Inr (p'', (l, r) # fs)))"

definition mixed_values :: "'f fpu \<Rightarrow> bool \<Rightarrow> ('f \<times> 'f) list \<Rightarrow> 'f list" where
  "mixed_values fp stereo fs =
     (if stereo then concat (map (\<lambda>(l, r). [l, r]) fs)
      else map (\<lambda>(l, r). f_div fp (f_add fp l r) (lit_2 fp)) fs)"

definition clamp_unit :: "'f fpu \<Rightarrow> 'f \<Rightarrow> 'f" where
  "clamp_unit fp v = clamp fp v (lit_neg1 fp) (lit_1 fp)"

section \<open>The end of the song as a parameter of a frame\<close>






section \<open>Concrete inputs\<close>

text \<open>A looping patch of four samples and a voice standing at phase 6, key held or released.\<close>

definition loop_patch :: "ieee patch_t" where
  "loop_patch = \<lparr>waveform = [128, 255, 0, 64], ratio = Fin 1, gain_L = Fin 1, gain_R = Fin (1 / 2),
                 loop_start = 0, loop_end = 4\<rparr>"

definition loop_voice :: "bool \<Rightarrow> ieee voice_single" where
  "loop_voice k = \<lparr>velocity = Fin 1, phase_add_by = Fin 1, note = 69, phase = Fin 6,
                   key = k, active = True\<rparr>"

text \<open>
  A player built by the constructor (8 voices, 4 Hz, stereo; the uninitialised members
  taken as zero), its channel pointers still null, whose public members were then set:
  playing at tick 7 with a bound program on channel 0. And a song of version 2.
\<close>

definition playing_player :: "ieee player" where
  "playing_player =
     (player_new exact_fpu 8 4 True (Fin 0) 0 0 0)
       \<lparr>playback := True, cursor := 7, last_cursor := Some 7, on_voices := 1,
        patch_ids := (\<lambda>i. if i = 0 then Some 5 else None)\<rparr>"


text \<open>The sixteen groups that \<open>play\<close> installs.\<close>

definition fresh_channels :: "nat \<Rightarrow> ieee voice_group_base" where
  "fresh_channels =
     (\<lambda>j. if j < 16 then (if j = 9 then drum_group [] else voice_group [] (Fin 0)) else nullptr)"


text \<open>
  A player with no voice budget (\<open>max_voices = 0\<close>), playing a song whose only event is a
  NoteOn on channel 16.
\<close>

definition budget_player :: "ieee player" where
  "budget_player =
     snd (play exact_fpu (player_new exact_fpu 0 4 True (Fin 0) 0 0 0)
            (song_init\<lparr>version := 3, ticks_end := 8, ticks_per_second := 4,
                       commands := [(0, command_note_on 16 60 100)]\<rparr>) None)"

text \<open>
  The drum miss: a player of 8 voices at 4 Hz playing a song whose only event is a NoteOn
  on channel 9, note 42, with no drum mapped; and the voice and the player as the first
  frame leaves them.
\<close>

definition drum_miss_player :: "ieee player" where
  "drum_miss_player =
     snd (play exact_fpu (player_new exact_fpu 8 4 True (Fin 0) 0 0 0)
            (song_init\<lparr>version := 3, ticks_end := 8, ticks_per_second := 4,
                       commands := [(0, command_note_on 9 42 127)]\<rparr>) None)"

definition drum_miss_voice :: "ieee voice_single" where
  "drum_miss_voice =
     \<lparr>velocity = Fin 1, phase_add_by = Fin (3520 * pi), note = 42, phase = Fin 0,
      key = True, active = False\<rparr>"

definition drum_miss_after :: "ieee player" where
  "drum_miss_after =
     drum_miss_player\<lparr>last_cursor := Some 0, on_voices := 1,
       channels := fresh_channels(9 := drum_group [drum_miss_voice])\<rparr>"

text \<open>
  A stream with a ProgramChange to program 5 and no patch at all; the song it decodes
  to; and the player (8 voices, 4 Hz, stereo) playing it.
\<close>

definition missing_program_bytes :: "U8 list" where
  "missing_program_bytes =
     [0x41, 0x58, 0x53, 0x44,
      0xFC, 0x03, 0x00,
      0xFD, 0x04, 0x00, 0x00, 0x00,
      0x04, 0x00, 0x00, 0x00, 0x00, 0x00, 0x05,
      0xFE, 0x08, 0x00, 0x00, 0x00]"

definition missing_program_song :: "ieee song" where
  "missing_program_song =
     \<lparr>version = 3, ticks_end = 8, ticks_per_second = 4,
      commands = [(0, command_version 3), (0, command_rate 4),
                  (0, command_program_change 0 5), (0, command_end_of_track)],
      patches = Map.empty, drums = Map.empty\<rparr>"

definition missing_program_player :: "ieee player" where
  "missing_program_player =
     snd (play exact_fpu (player_new exact_fpu 8 4 True (Fin 0) 0 0 0) missing_program_song None)"



text \<open>
  A stream with one patch (program 0, a single sample \<open>0xFF\<close>, not looping, ratio 1.0,
  right gain 1.0) whose left gain is the bit pattern \<open>0x7FC00000\<close>, a NaN; a
  ProgramChange and a NoteOn (note 69, velocity 127) on channel 0 at tick 0; EndOfTrack
  at tick 8. Then the song it decodes to, the player playing it, and the voice and the
  player after the first frame.
\<close>

definition nan_gain_bytes :: "U8 list" where
  "nan_gain_bytes =
     [0x41, 0x58, 0x53, 0x44,
      0xFC, 0x03, 0x00,
      0xFD, 0x04, 0x00, 0x00, 0x00,
      0x80, 0x00, 0x01, 0x00, 0x00, 0x00, 0xFF, 0xFF, 0xFF, 0xFF, 0x00, 0x00, 0x00, 0x00,
            0x00, 0x00, 0x80, 0x3F, 0x00, 0x00, 0xC0, 0x7F, 0x00, 0x00, 0x80, 0x3F, 0xFF,
      0x04, 0x00, 0x00, 0x00, 0x00, 0x00, 0x00,
      0x01, 0x00, 0x00, 0x00, 0x00, 0x00, 0x45, 0x7F,
      0xFE, 0x08, 0x00, 0x00, 0x00]"

definition nan_gain_patch :: "ieee patch_t" where
  "nan_gain_patch =
     \<lparr>waveform = [0xFF], ratio = Fin 1, gain_L = NaN, gain_R = Fin 1,
      loop_start = 0xFFFFFFFF, loop_end = 0\<rparr>"

definition nan_gain_song :: "ieee song" where
  "nan_gain_song =
     \<lparr>version = 3, ticks_end = 8, ticks_per_second = 4,
      commands = [(0, command_version 3), (0, command_rate 4), (0, command_patch_data),
                  (0, command_program_change 0 0), (0, command_note_on 0 69 127),
                  (0, command_end_of_track)],
      patches = [0 \<mapsto> nan_gain_patch], drums = Map.empty\<rparr>"

definition nan_gain_player :: "ieee player" where
  "nan_gain_player =
     snd (play exact_fpu (player_new exact_fpu 8 4 True (Fin 0) 0 0 0) nan_gain_song None)"

definition nan_gain_voice :: "ieee voice_single" where
  "nan_gain_voice =
     \<lparr>velocity = Fin 1, phase_add_by = Fin 11000, note = 69, phase = Fin 11000,
      key = True, active = True\<rparr>"

definition nan_gain_after :: "ieee player" where
  "nan_gain_after =
     nan_gain_player\<lparr>last_cursor := Some 0, on_voices := 1,
       channels := fresh_channels(0 := voice_group [nan_gain_voice] (Fin 0)),
       patch_ids := (\<lambda>i. None)(0 := Some 0), seconds_elapsed := Fin (1 / 4)\<rparr>"








section \<open>Auxiliary facts\<close>

text \<open>The loop of \<open>play\<close> over the sixteen entries of \<open>patch_ids\<close>.\<close>

lemma fold_fun_upd_upt:
  "fold (\<lambda>i ch. ch(i := g i)) [0..<n] c = (\<lambda>j. if j < n then g j else c j)"
  by (induction n) (auto simp: fun_eq_iff)

text \<open>The exact unit: its operations and the literals of the source.\<close>

lemma exact_fpu_sel:
  "f_bits exact_fpu = ieee_bits" "f_add exact_fpu = ieee_add" "f_sub exact_fpu = ieee_sub"
  "f_mul exact_fpu = ieee_mul" "f_div exact_fpu = ieee_div" "f_less exact_fpu = ieee_less"
  "f_fmod exact_fpu = ieee_fmod" "f_floor exact_fpu = ieee_floor" "f_pow exact_fpu = ieee_pow"
  "f_times_pi exact_fpu = ieee_times_pi"
  "f_of_u32 exact_fpu w = Fin (real (unat w))"
  "f_of_s32 exact_fpu w = Fin (real_of_int (sint w))"
  "f_to_u32 exact_fpu = ieee_to_u32"
  by (simp_all add: exact_fpu_def)

lemma ieee_bits_zero: "ieee_bits 0 = Fin 0"
  by (simp add: ieee_bits_def drop_bit_eq_div)
lemma ieee_bits_neg_one: "ieee_bits 0xBF800000 = Fin (- 1)"
  by (simp add: ieee_bits_def drop_bit_eq_div)
lemma ieee_bits_lits: "ieee_bits 0x40000000 = Fin 2" "ieee_bits 0x41400000 = Fin 12" "ieee_bits 0x42000000 = Fin 32"
  "ieee_bits 0x428A0000 = Fin 69" "ieee_bits 0x42C80000 = Fin 100" "ieee_bits 0x42FE0000 = Fin 127"
  "ieee_bits 0x43000000 = Fin 128" "ieee_bits 0x45800000 = Fin 4096" "ieee_bits 0x43DC0000 = Fin 440"
  "ieee_bits 0x3F800000 = Fin 1"
  by (simp_all add: ieee_bits_def drop_bit_eq_div)
lemma ieee_bits_nan: "ieee_bits 0x7FC00000 = NaN"
  by (simp add: ieee_bits_def drop_bit_eq_div)
lemma exact_lits:
  "lit_0 exact_fpu = Fin 0" "lit_1 exact_fpu = Fin 1" "lit_neg1 exact_fpu = Fin (- 1)"
  "lit_2 exact_fpu = Fin 2" "lit_12 exact_fpu = Fin 12" "lit_32 exact_fpu = Fin 32"
  "lit_69 exact_fpu = Fin 69" "lit_100 exact_fpu = Fin 100" "lit_127 exact_fpu = Fin 127"
  "lit_128 exact_fpu = Fin 128" "lit_4096 exact_fpu = Fin 4096" "A440 exact_fpu = Fin 440"
  by (simp_all only: exact_fpu_sel lit_0_def lit_1_def lit_neg1_def lit_2_def lit_12_def lit_32_def
       lit_69_def lit_100_def lit_127_def lit_128_def lit_4096_def A440_def ieee_bits_zero ieee_bits_neg_one ieee_bits_lits)

text \<open>
  The fold of the sample index stays inside the loop, and no \<open>U32\<close> operation of it
  wraps.
\<close>

lemma fold_here_looping:
  fixes patch :: "('f, 'a) patch_t_scheme"
  assumes ne: "loop_start patch \<noteq> 0xFFFFFFFF"
    and lt: "loop_start patch < loop_end patch"
    and gt: "loop_end patch < here"
  shows "\<exists>w. fold_here patch True here = Some w
          \<and> unat w = (unat here - unat (loop_start patch))
                        mod (unat (loop_end patch) - unat (loop_start patch))
                      + unat (loop_start patch)
          \<and> loop_start patch \<le> w \<and> w < loop_end patch"
proof -
  let ?ls = "loop_start patch" and ?le = "loop_end patch"
  have le1: "?ls \<le> ?le" and le2: "?ls \<le> here" using lt gt by auto
  have u1: "unat (?le - ?ls) = unat ?le - unat ?ls" using le1 by (simp add: unat_sub)
  have u2: "unat (here - ?ls) = unat here - unat ?ls" using le2 by (simp add: unat_sub)
  have pos: "0 < unat ?le - unat ?ls" using lt by (simp add: word_less_nat_alt)
  have nz: "?le - ?ls \<noteq> 0" using pos u1 by (metis less_numeral_extra(3) unat_0)
  let ?m = "(here - ?ls) mod (?le - ?ls)"
  have um: "unat ?m = (unat here - unat ?ls) mod (unat ?le - unat ?ls)"
    by (simp add: unat_mod u1 u2)
  have mlt: "unat ?m < unat ?le - unat ?ls" using um pos by simp
  have bound: "unat ?m + unat ?ls < 2 ^ LENGTH(32)"
  proof -
    have "unat ?m + unat ?ls < unat ?le" using mlt by simp
    also have "\<dots> < 2 ^ LENGTH(32)" by (rule unsigned_less)
    finally show ?thesis .
  qed
  have ua: "unat (?m + ?ls) = unat ?m + unat ?ls"
    using bound unat_add_lem[of ?m ?ls] by simp
  have f: "fold_here patch True here = Some (?m + ?ls)"
    using ne gt nz by (simp add: fold_here_def)
  have lo: "?ls \<le> ?m + ?ls" using ua by (simp add: word_le_nat_alt)
  have hi: "?m + ?ls < ?le" using ua mlt by (simp add: word_less_nat_alt)
  show ?thesis using f ua um lo hi by simp
qed

text \<open>
  One voice of the melodic loop, when its index is folded and when it runs off the end;
  and the loop over a group that continues another.
\<close>

lemma voice_accumulate_looping:
  fixes patch :: "'f patch_t"
  assumes ne: "loop_start patch \<noteq> 0xFFFFFFFF"
    and lt: "loop_start patch < loop_end patch"
    and len: "unat (loop_end patch) \<le> length (waveform patch)"
    and here: "f_to_u32 fp (f_floor fp (f_mul fp (ratio patch) (phase v))) = Some here"
    and gt: "loop_end patch < here"
    and k: "key v"
  shows "\<exists>w. w = (here - loop_start patch) mod (loop_end patch - loop_start patch)
                  + loop_start patch
           \<and> unat w = (unat here - unat (loop_start patch))
                         mod (unat (loop_end patch) - unat (loop_start patch))
                       + unat (loop_start patch)
           \<and> fold_here patch (key v) here = Some w
           \<and> voice_accumulate fp patch v l r =
               Inr (v\<lparr>phase := f_add fp (phase v) (phase_add_by v)\<rparr>,
                    f_add fp l (f_mul fp (f_mul fp (sample_at fp (waveform patch) w) (velocity v))
                                  (gain_L patch)),
                    f_add fp r (f_mul fp (f_mul fp (sample_at fp (waveform patch) w) (velocity v))
                                  (gain_R patch)))"
proof -
  from fold_here_looping[OF ne lt gt]
  obtain w where w: "fold_here patch True here = Some w"
    and uw: "unat w = (unat here - unat (loop_start patch))
                        mod (unat (loop_end patch) - unat (loop_start patch))
                      + unat (loop_start patch)"
    and hi: "w < loop_end patch" by blast
  have weq: "w = (here - loop_start patch) mod (loop_end patch - loop_start patch)
                  + loop_start patch"
    using w ne gt by (simp add: fold_here_def split: if_splits)
  have inb: "\<not> length (waveform patch) \<le> unat w"
    using hi len by (simp add: word_less_nat_alt)
  have "voice_accumulate fp patch v l r =
          Inr (v\<lparr>phase := f_add fp (phase v) (phase_add_by v)\<rparr>,
               f_add fp l (f_mul fp (f_mul fp (sample_at fp (waveform patch) w) (velocity v))
                             (gain_L patch)),
               f_add fp r (f_mul fp (f_mul fp (sample_at fp (waveform patch) w) (velocity v))
                             (gain_R patch)))"
    using here w k inb by (simp add: voice_accumulate_def Let_def)
  then show ?thesis using weq uw w k by auto
qed

lemma voice_accumulate_runoff:
  fixes patch :: "'f patch_t"
  assumes here: "f_to_u32 fp (f_floor fp (f_mul fp (ratio patch) (phase v))) = Some here"
    and b: "\<not> key v \<or> loop_start patch = 0xFFFFFFFF"
    and off: "length (waveform patch) \<le> unat here"
  shows "fold_here patch (key v) here = Some here"
    and "voice_accumulate fp patch v l r =
          Inr (v\<lparr>active := False, phase := f_add fp (phase v) (phase_add_by v)\<rparr>,
               f_add fp l (f_mul fp (f_mul fp (lit_0 fp) (velocity v)) (gain_L patch)),
               f_add fp r (f_mul fp (f_mul fp (lit_0 fp) (velocity v)) (gain_R patch)))"
proof -
  show f: "fold_here patch (key v) here = Some here"
    using b by (auto simp: fold_here_def)
  show "voice_accumulate fp patch v l r =
          Inr (v\<lparr>active := False, phase := f_add fp (phase v) (phase_add_by v)\<rparr>,
               f_add fp l (f_mul fp (f_mul fp (lit_0 fp) (velocity v)) (gain_L patch)),
               f_add fp r (f_mul fp (f_mul fp (lit_0 fp) (velocity v)) (gain_R patch)))"
    using here f off by (simp add: voice_accumulate_def Let_def)
qed

lemma voice_group_accumulate_into_append:
  "voice_group_accumulate_into fp patch xs l r = Inr (xs', l1, r1) \<Longrightarrow>
   voice_group_accumulate_into fp patch ys l1 r1 = Inr (ys', l2, r2) \<Longrightarrow>
   voice_group_accumulate_into fp patch (xs @ ys) l r = Inr (xs' @ ys', l2, r2)"
proof (induction xs arbitrary: xs' l r)
  case Nil
  then show ?case by simp
next
  case (Cons x xs)
  from Cons.prems(1) obtain x' la ra xs0 where
    a: "voice_accumulate fp patch x l r = Inr (x', la, ra)"
    and b: "voice_group_accumulate_into fp patch xs la ra = Inr (xs0, l1, r1)"
    and c: "xs' = x' # xs0"
    by (auto split: sum.splits prod.splits)
  from Cons.IH[OF b Cons.prems(2)] a c show ?case by simp
qed

lemma voice_group_accumulate_into_snoc:
  "voice_group_accumulate_into fp patch xs l r = Inr (xs', l1, r1) \<Longrightarrow>
   voice_accumulate fp patch v l1 r1 = Inr (v', l2, r2) \<Longrightarrow>
   voice_group_accumulate_into fp patch (xs @ [v]) l r = Inr (xs' @ [v'], l2, r2)"
  using voice_group_accumulate_into_append[of fp patch xs l r xs' l1 r1 "[v]" "[v']" l2 r2]
  by simp

text \<open>
  The reset of the channels on null pointers and on installed groups; a successful
  \<open>play\<close>; and the decoder on the four channel events.
\<close>

lemma reset_channels_null:
  "distinct is \<Longrightarrow> (\<forall>i \<in> set is. ch i = nullptr) \<Longrightarrow>
     reset_channels fp is ch =
       Inr (\<lambda>j. if j \<in> set is then (if j = 9 then drum_group [] else voice_group [] (lit_0 fp))
                else ch j)"
proof (induction "is" arbitrary: ch)
  case Nil
  then show ?case by simp
next
  case (Cons i "is")
  let ?ch = "ch(i := (if i = 9 then drum_group [] else voice_group [] (lit_0 fp)))"
  have d: "distinct is" and ni: "i \<notin> set is" using Cons.prems(1) by auto
  have n: "\<forall>j \<in> set is. ?ch j = nullptr" using Cons.prems(2) ni by auto
  have i0: "ch i = nullptr" using Cons.prems(2) by simp
  have "reset_channels fp (i # is) ch = reset_channels fp is ?ch" using i0 by simp
  also have "\<dots> = Inr (\<lambda>j. if j \<in> set is
                               then (if j = 9 then drum_group [] else voice_group [] (lit_0 fp))
                               else ?ch j)"
    by (rule Cons.IH[OF d n])
  also have "(\<lambda>j. if j \<in> set is
                  then (if j = 9 then drum_group [] else voice_group [] (lit_0 fp))
                  else ?ch j)
           = (\<lambda>j. if j \<in> set (i # is)
                  then (if j = 9 then drum_group [] else voice_group [] (lit_0 fp))
                  else ch j)"
    using ni by (auto simp: fun_eq_iff)
  finally show ?case .
qed



lemma reset_channels_16:
  "(\<forall>i<16. ch i = nullptr) \<Longrightarrow>
     reset_channels fp [0..<16] ch =
       Inr (\<lambda>j. if j < 16 then (if j = 9 then drum_group [] else voice_group [] (lit_0 fp))
                else ch j)"
  using reset_channels_null[of "[0..<16]" ch fp] by simp

lemma player_new_channels:
  "channels (player_new fp count freq stereo se0 v0 te0 tps0) i = nullptr"
  by (simp add: player_new_def)

lemma play_ok:
  "version s = 3 \<Longrightarrow> (\<forall>i<16. channels p i = nullptr) \<Longrightarrow>
   play fp p s env =
     (None, p\<lparr>env_params := env, current := s,
              channels := (\<lambda>j. if j < 16 then (if j = 9 then drum_group [] else voice_group [] (lit_0 fp))
                               else channels p j),
              patch_ids := (\<lambda>j. if j < 16 then None else patch_ids p j),
              seconds_elapsed := lit_0 fp,
              seconds_end := f_div fp (f_of_u32 fp (ticks_end s)) (f_of_u32 fp (ticks_per_second s)),
              on_voices := 0, cursor := 0, echo_cursor := 0, last_cursor := None, playback := True\<rparr>)"
  by (simp add: play_def Let_def CURRENT_VERSION_def fold_fun_upd_upt reset_channels_16
        cong: if_cong)

lemma load_records_note_on:
  "load_records fp (0x01 # t0 # t1 # t2 # t3 # ch # n # vel # bytes) s
     = load_records fp bytes (emplace s (le32 [t0, t1, t2, t3] 0) (command_note_on ch n vel))"
  by (simp add: byte_sizes_def decode_record_def le32_def)

lemma load_records_note_off:
  "load_records fp (0x02 # t0 # t1 # t2 # t3 # ch # bytes) s
     = load_records fp bytes (emplace s (le32 [t0, t1, t2, t3] 0) (command_note_off ch))"
  by (simp add: byte_sizes_def decode_record_def le32_def)

lemma load_records_pitchwheel:
  "load_records fp (0x03 # t0 # t1 # t2 # t3 # ch # b0 # b1 # b2 # b3 # bytes) s
     = load_records fp bytes
         (emplace s (le32 [t0, t1, t2, t3] 0) (command_pitchwheel ch (le32 [b0, b1, b2, b3] 0)))"
  by (simp add: byte_sizes_def decode_record_def le32_def)

lemma load_records_program_change:
  "load_records fp (0x04 # t0 # t1 # t2 # t3 # ch # prog # bytes) s
     = load_records fp bytes (emplace s (le32 [t0, t1, t2, t3] 0) (command_program_change ch prog))"
  by (simp add: byte_sizes_def decode_record_def le32_def)

text \<open>The indices of the mixing loop.\<close>

lemma upt_16: "[0..<16] = [0, 1, 2, 3, 4, 5, 6, 7, 8, 9, 10, 11, 12, 13, 14, 15]"
  by (simp add: upt_rec)

text \<open>
  Accumulation keeps the number of voices; one round of the mixing loop touches its own
  channel and \<open>on_voices\<close> only.
\<close>

lemma voice_group_accumulate_into_length:
  "voice_group_accumulate_into fp patch vs l r = Inr (vs', l', r') \<Longrightarrow> length vs' = length vs"
  by (induction vs arbitrary: l r vs' l' r') (auto split: sum.splits prod.splits)

lemma drum_group_accumulate_into_length:
  "drum_group_accumulate_into fp m vs l r = Inr (vs', l', r') \<Longrightarrow> length vs' = length vs"
  by (induction vs arbitrary: l r vs' l' r') (auto split: sum.splits prod.splits)

lemma mix_channel_effect:
  assumes "mix_channel fp i (p, l, r) = Inr (p', l', r')"
  shows "patch_ids p' = patch_ids p"
    and "\<forall>j. j \<noteq> i \<longrightarrow> channels p' j = channels p j"
    and "on_voices p' = on_voices p + of_nat (counted p' i)"
  using assms
  by (auto simp: mix_channel_def counted_def is_mixed_def
        dest: voice_group_accumulate_into_length drum_group_accumulate_into_length
        split: if_splits voice_group_base.splits sum.splits prod.splits option.splits)

lemma counted_cong:
  "patch_ids q = patch_ids p \<Longrightarrow> channels q i = channels p i \<Longrightarrow> counted q i = counted p i"
  by (simp add: counted_def is_mixed_def split: voice_group_base.splits)

lemma mix_channels_effect:
  assumes "mix_channels fp is (p, l, r) = Inr (p', l', r')" and "distinct is"
  shows "patch_ids p' = patch_ids p
         \<and> (\<forall>j. j \<notin> set is \<longrightarrow> channels p' j = channels p j)
         \<and> on_voices p' = on_voices p + of_nat (\<Sum>i\<leftarrow>is. counted p' i)"
  using assms
proof (induction "is" arbitrary: p l r)
  case Nil
  then show ?case by simp
next
  case (Cons i "is")
  from Cons.prems(1) obtain p1 l1 r1 where
    m: "mix_channel fp i (p, l, r) = Inr (p1, l1, r1)"
    and rest: "mix_channels fp is (p1, l1, r1) = Inr (p', l', r')"
    by (auto split: sum.splits)
  from Cons.prems(2) have d: "distinct is" and ni: "i \<notin> set is" by auto
  note e = mix_channel_effect[OF m]
  from Cons.IH[OF rest d] have
    ih1: "patch_ids p' = patch_ids p1"
    and ih2: "\<forall>j. j \<notin> set is \<longrightarrow> channels p' j = channels p1 j"
    and ih3: "on_voices p' = on_voices p1 + of_nat (\<Sum>i\<leftarrow>is. counted p' i)"
    by auto
  have c: "counted p' i = counted p1 i"
    using ih1 ih2 ni by (intro counted_cong) auto
  show ?case using e ih1 ih2 ih3 c by (auto simp: algebra_simps)
qed

text \<open>A drum voice whose note has no drum is marked inactive and mixes the sample \<open>0.0f\<close>.\<close>

lemma drum_accumulate_missing:
  "mapping (note d) = None \<Longrightarrow>
     drum_accumulate fp mapping d l r =
       Inr (d\<lparr>active := False\<rparr>,
            f_add fp l (f_mul fp (f_mul fp (lit_0 fp) (velocity d)) (lit_0 fp)),
            f_add fp r (f_mul fp (f_mul fp (lit_0 fp) (velocity d)) (lit_0 fp)))"
  by (simp add: drum_accumulate_def)

text \<open>The concrete players, member by member, and the first frame of the drum miss.\<close>

lemma budget_player_eq:
  "budget_player =
     \<lparr>seconds_elapsed = Fin 0, seconds_end = Fin 2, frequency = Fin (1 / 4),
      max_voices = 0, on_voices = 0,
      echo_buffer_L = (\<lambda>k. Fin 0), echo_buffer_R = (\<lambda>k. Fin 0),
      echo_cursor = 0, env_params = None, cursor = 0, last_cursor = None,
      current = \<lparr>version = 3, ticks_end = 8, ticks_per_second = 4,
                 commands = [(0, command_note_on 16 60 100)],
                 patches = Map.empty, drums = Map.empty\<rparr>,
      in_stereo = True,
      channels = fresh_channels,
      patch_ids = (\<lambda>i. None),
      playback = True\<rparr>"
  by (simp add: budget_player_def play_ok song_init_def player_new_def exact_lits exact_fpu_sel
        fresh_channels_def cong: if_cong)

lemma drum_miss_player_eq:
  "drum_miss_player =
     \<lparr>seconds_elapsed = Fin 0, seconds_end = Fin 2, frequency = Fin (1 / 4),
      max_voices = 8, on_voices = 0,
      echo_buffer_L = (\<lambda>k. Fin 0), echo_buffer_R = (\<lambda>k. Fin 0),
      echo_cursor = 0, env_params = None, cursor = 0, last_cursor = None,
      current = \<lparr>version = 3, ticks_end = 8, ticks_per_second = 4,
                 commands = [(0, command_note_on 9 42 127)],
                 patches = Map.empty, drums = Map.empty\<rparr>,
      in_stereo = True,
      channels = fresh_channels,
      patch_ids = (\<lambda>i. None),
      playback = True\<rparr>"
  by (simp add: drum_miss_player_def play_ok song_init_def player_new_def exact_lits exact_fpu_sel
        fresh_channels_def cong: if_cong)

lemma drum_miss_run:
  "handle_one exact_fpu drum_miss_player (Fin 0) (Fin 0) = Inr (drum_miss_after, Fin 0, Fin 0)"
  by (simp add: drum_miss_player_eq handle_one_def equal_range_def exact_fpu_sel exact_lits upt_16
        mix_channel_def fresh_channels_def new_voice_def drum_accumulate_def drum_miss_voice_def
        drum_miss_after_def fun_eq_iff)

lemma mixed_after_drum_miss: "mixed_voices drum_miss_after = 1"
proof -
  have c: "counted drum_miss_after i = (if i = 9 then 1 else 0)" for i
    by (simp add: counted_def is_mixed_def fresh_channels_def drum_miss_player_eq
          drum_miss_after_def)
  show ?thesis
    unfolding mixed_voices_def c upt_16 by simp
qed

lemma budget_run:
  "handle_one exact_fpu budget_player (Fin 0) (Fin 0)
     = Inr (budget_player\<lparr>last_cursor := Some 0\<rparr>, Fin 0, Fin 0)"
  by (simp add: budget_player_eq handle_one_def equal_range_def exact_fpu_sel upt_16
        mix_channel_def fresh_channels_def fun_eq_iff)

lemma missing_program_load:
  "load exact_fpu missing_program_bytes = Inr missing_program_song"
  by (simp add: missing_program_bytes_def missing_program_song_def load_def MAGIC_def byte_sizes_def
        decode_record_def le32_def le16_def emplace_def song_init_def)

lemma missing_program_player_eq:
  "missing_program_player =
     \<lparr>seconds_elapsed = Fin 0, seconds_end = Fin 2, frequency = Fin (1 / 4),
      max_voices = 8, on_voices = 0,
      echo_buffer_L = (\<lambda>k. Fin 0), echo_buffer_R = (\<lambda>k. Fin 0),
      echo_cursor = 0, env_params = None, cursor = 0, last_cursor = None,
      current = missing_program_song,
      in_stereo = True,
      channels = fresh_channels,
      patch_ids = (\<lambda>i. None),
      playback = True\<rparr>"
  by (simp add: missing_program_player_def play_ok missing_program_song_def player_new_def
        exact_lits exact_fpu_sel fresh_channels_def cong: if_cong)











text \<open>The loops of \<open>tick\<close> write the clamped values of the rendered frames.\<close>

lemma tick_stereo_frames:
  "tick_stereo fp p n = Inr (p', out) \<Longrightarrow>
     \<exists>fs. render_frames fp p (n div 2) = Inr (p', fs) \<and> out = map (clamp_unit fp) (mixed_values fp True fs) \<and> even n"
proof (induction fp p n arbitrary: p' out rule: tick_stereo.induct)
  case (1 fp p)
  then show ?case by (simp add: mixed_values_def)
next
  case (2 fp p)
  then show ?case by (simp split: sum.splits)
next
  case (3 fp p n)
  from "3.prems" obtain p1 l r p2 out' where
    f: "render_frame fp p = Inr (p1, l, r)"
    and t: "tick_stereo fp p1 n = Inr (p2, out')"
    and o: "p' = p2" "out = clamp fp l (lit_neg1 fp) (lit_1 fp) # clamp fp r (lit_neg1 fp) (lit_1 fp) # out'"
    by (auto split: sum.splits prod.splits)
  from "3.IH"[OF f refl refl t] obtain fs where
    fs: "render_frames fp p1 (n div 2) = Inr (p2, fs)" "out' = map (clamp_unit fp) (mixed_values fp True fs)" "even n"
    by (auto simp: )
  show ?case using f fs o by (simp add: mixed_values_def clamp_unit_def)
qed

lemma tick_mono_frames:
  "tick_mono fp p n = Inr (p', out) \<Longrightarrow>
     \<exists>fs. render_frames fp p n = Inr (p', fs) \<and> out = map (clamp_unit fp) (mixed_values fp False fs)"
proof (induction n arbitrary: p p' out)
  case 0
  then show ?case by (simp add: mixed_values_def)
next
  case (Suc n)
  from Suc.prems obtain p1 l r p2 out' where
    f: "render_frame fp p = Inr (p1, l, r)"
    and t: "tick_mono fp p1 n = Inr (p2, out')"
    and o: "p' = p2" "out = clamp fp (f_div fp (f_add fp l r) (lit_2 fp)) (lit_neg1 fp) (lit_1 fp) # out'"
    by (auto split: sum.splits prod.splits)
  from Suc.IH[OF t] obtain fs where
    fs: "render_frames fp p1 n = Inr (p2, fs)" "out' = map (clamp_unit fp) (mixed_values fp False fs)"
    by auto
  show ?case using f fs o by (simp add: mixed_values_def clamp_unit_def)
qed

lemma clamp_in_unit_range:
  assumes "f_less fp (lit_neg1 fp) (lit_1 fp)"
    and "comparable fp v (lit_neg1 fp)" and "comparable fp v (lit_1 fp)"
  shows "in_unit_range fp (clamp_unit fp v)"
  using assms by (auto simp: clamp_def clamp_unit_def in_unit_range_def comparable_def)

text \<open>The stream with the NaN gain, decoded, played and rendered for one frame.\<close>

lemma nan_gain_load: "load exact_fpu nan_gain_bytes = Inr nan_gain_song"
  by (simp add: nan_gain_bytes_def nan_gain_song_def nan_gain_patch_def load_def MAGIC_def
        byte_sizes_def decode_record_def le32_def le16_def emplace_def song_init_def map_insert_def
        exact_fpu_sel ieee_bits_lits ieee_bits_nan)

lemma nan_gain_player_eq:
  "nan_gain_player =
     \<lparr>seconds_elapsed = Fin 0, seconds_end = Fin 2, frequency = Fin (1 / 4),
      max_voices = 8, on_voices = 0,
      echo_buffer_L = (\<lambda>k. Fin 0), echo_buffer_R = (\<lambda>k. Fin 0),
      echo_cursor = 0, env_params = None, cursor = 0, last_cursor = None,
      current = nan_gain_song,
      in_stereo = True,
      channels = fresh_channels,
      patch_ids = (\<lambda>i. None),
      playback = True\<rparr>"
  by (simp add: nan_gain_player_def play_ok nan_gain_song_def player_new_def
        exact_lits exact_fpu_sel fresh_channels_def cong: if_cong)

lemma nan_gain_handle_one:
  "handle_one exact_fpu nan_gain_player (Fin 0) (Fin 0) =
     Inr (nan_gain_player\<lparr>last_cursor := Some 0, on_voices := 1,
            channels := fresh_channels(0 := voice_group [nan_gain_voice] (Fin 0)),
            patch_ids := (\<lambda>i. None)(0 := Some 0)\<rparr>, NaN, Fin (127 / 128))"
  by (simp add: nan_gain_player_eq nan_gain_song_def nan_gain_patch_def handle_one_def
        equal_range_def exact_fpu_sel exact_lits upt_16 mix_channel_def fresh_channels_def
        new_voice_def calculate_12tet_def ieee_sub_def nan_gain_voice_def
        voice_accumulate_def fold_here_def sample_at_def fun_eq_iff)

lemma nan_gain_render_frame:
  "render_frame exact_fpu nan_gain_player = Inr (nan_gain_after, NaN, Fin (127 / 128))"
proof -
  have s: "playback nan_gain_player" "env_params nan_gain_player = None"
    "seconds_elapsed nan_gain_player = Fin 0"
    "frequency nan_gain_player = Fin (1 / 4)" "seconds_end nan_gain_player = Fin 2"
    by (simp_all add: nan_gain_player_eq)
  show ?thesis
    using s by (simp add: render_frame_def exact_lits nan_gain_handle_one exact_fpu_sel
          maybe_echo_one_def nan_gain_after_def)
qed

lemma nan_gain_tick:
  "tick exact_fpu nan_gain_player 2 = Inr (nan_gain_after, [NaN, Fin (127 / 128)])"
proof -
  have s: "in_stereo nan_gain_player" by (simp add: nan_gain_player_eq)
  show ?thesis
    using s nan_gain_render_frame
    by (simp add: tick_def numeral_2_eq_2 clamp_def exact_lits exact_fpu_sel)
qed

lemma nan_gain_mono_tick:
  "tick exact_fpu (nan_gain_player\<lparr>in_stereo := False\<rparr>) 1
     = Inr (nan_gain_after\<lparr>in_stereo := False\<rparr>, [NaN])"
proof -
  have h: "handle_one exact_fpu (nan_gain_player\<lparr>in_stereo := False\<rparr>) (Fin 0) (Fin 0) =
     Inr (nan_gain_player\<lparr>in_stereo := False, last_cursor := Some 0, on_voices := 1,
            channels := fresh_channels(0 := voice_group [nan_gain_voice] (Fin 0)),
            patch_ids := (\<lambda>i. None)(0 := Some 0)\<rparr>, NaN, Fin (127 / 128))"
    by (simp add: nan_gain_player_eq nan_gain_song_def nan_gain_patch_def handle_one_def
        equal_range_def exact_fpu_sel exact_lits upt_16 mix_channel_def fresh_channels_def
        new_voice_def calculate_12tet_def ieee_sub_def nan_gain_voice_def
        voice_accumulate_def fold_here_def sample_at_def Let_def fun_eq_iff)
  have s: "playback (nan_gain_player\<lparr>in_stereo := False\<rparr>)"
    "env_params (nan_gain_player\<lparr>in_stereo := False\<rparr>) = None"
    "seconds_elapsed nan_gain_player = Fin 0"
    "frequency nan_gain_player = Fin (1 / 4)" "seconds_end nan_gain_player = Fin 2"
    by (simp_all add: nan_gain_player_eq)
  have f: "render_frame exact_fpu (nan_gain_player\<lparr>in_stereo := False\<rparr>)
             = Inr (nan_gain_after\<lparr>in_stereo := False\<rparr>, NaN, Fin (127 / 128))"
    using s by (simp add: render_frame_def exact_lits h exact_fpu_sel
          maybe_echo_one_def nan_gain_after_def)
  show ?thesis
    using f by (simp add: tick_def clamp_def exact_lits exact_fpu_sel)
qed
























section \<open>Claims\<close>

text \<open>
  The general theorems hold for every floating-point unit \<open>fp\<close>. The closed
  evaluations run on \<open>exact_fpu\<close>, on inputs whose floats binary32 computes without
  rounding too: sums, products and quotients of small dyadic numbers, and
  \<open>std::pow(2.0f, 0.0f) = 1\<close>. The one exception is the phase step \<open>3520 * pi\<close> of
  the drum voice, which the machine rounds; it is stored and never read.
\<close>

text \<open>
  C1. The stream \<open>missing_program_bytes\<close> decodes, \<open>play\<close> accepts the song, and the first
  frame dispatches the ProgramChange to program 5, which no patch defines: the lookup
  \<open>current.patches.at\<close> throws \<open>std::out_of_range\<close> out of \<open>handle_one\<close> and out of
  \<open>tick\<close>, where the claim says the channel is silent and rendering goes on.
\<close>

theorem tick_throws_on_missing_program:
  "load exact_fpu missing_program_bytes = Inr missing_program_song
   \<and> play exact_fpu (player_new exact_fpu 8 4 True (Fin 0) 0 0 0) missing_program_song None
       = (None, missing_program_player)
   \<and> handle_one exact_fpu missing_program_player (Fin 0) (Fin 0) = Inl out_of_range
   \<and> tick exact_fpu missing_program_player 2 = Inl out_of_range"
proof -
  have p: "play exact_fpu (player_new exact_fpu 8 4 True (Fin 0) 0 0 0) missing_program_song None
       = (None, missing_program_player)"
    by (simp add: missing_program_player_def play_ok player_new_channels missing_program_song_def)
  have h: "handle_one exact_fpu missing_program_player (Fin 0) (Fin 0) = Inl out_of_range"
    by (simp add: missing_program_player_eq missing_program_song_def handle_one_def
          equal_range_def exact_fpu_sel upt_16 mix_channel_def fresh_channels_def)
  have t: "tick exact_fpu missing_program_player 2 = Inl out_of_range"
  proof -
    have "playback missing_program_player" "in_stereo missing_program_player"
      by (simp_all add: missing_program_player_eq)
    then show ?thesis
      using h by (simp add: tick_def numeral_2_eq_2 render_frame_def exact_lits)
  qed
  show ?thesis using missing_program_load p h t by simp
qed

text \<open>
  C2 as stated fails: decoded from \<open>nan_gain_bytes\<close> and played, the first stereo frame
  mixes the sample with the NaN gain, \<open>std::clamp\<close> returns the NaN as it is (both of
  its comparisons are false), and the NaN is written to the left slot.
\<close>

theorem tick_writes_nan_for_nan_gain:
  "load exact_fpu nan_gain_bytes = Inr nan_gain_song
   \<and> play exact_fpu (player_new exact_fpu 8 4 True (Fin 0) 0 0 0) nan_gain_song None
       = (None, nan_gain_player)
   \<and> tick exact_fpu nan_gain_player 2 = Inr (nan_gain_after, [NaN, Fin (127 / 128)])
   \<and> \<not> in_unit_range exact_fpu NaN"
proof -
  have p: "play exact_fpu (player_new exact_fpu 8 4 True (Fin 0) 0 0 0) nan_gain_song None
       = (None, nan_gain_player)"
    by (simp add: nan_gain_player_def play_ok player_new_channels nan_gain_song_def)
  have n: "\<not> in_unit_range exact_fpu NaN"
    by (simp add: in_unit_range_def exact_fpu_sel exact_lits)
  show ?thesis using nan_gain_load p n by (simp add: nan_gain_tick)
qed

text \<open>
  C2, amended. For every call of \<open>tick\<close> that returns, every slot of the buffer receives
  \<open>std::clamp(v, -1.0f, 1.0f)\<close> of the frame's mixed value \<open>v\<close>: \<open>l\<close> and \<open>r\<close> of the
  rendered pair in stereo, \<open>(l + r) / 2.0f\<close> in mono. The written value lies in
  \<open>[-1.0, 1.0]\<close> whenever \<open>v\<close> is comparable with \<open>-1.0f\<close> and \<open>1.0f\<close>, that is, whenever
  it is not a NaN. (The only fact used of the float arithmetic is \<open>-1.0f < 1.0f\<close>.)
\<close>

theorem tick_writes_clamped_frames:
  assumes t: "tick fp p n = Inr (p', out)"
    and lo_hi: "f_less fp (lit_neg1 fp) (lit_1 fp)"
  shows "\<exists>fs. render_frames fp p (if in_stereo p then n div 2 else n) = Inr (p', fs)
              \<and> out = map (\<lambda>v. clamp fp v (lit_neg1 fp) (lit_1 fp)) (mixed_values fp (in_stereo p) fs)
              \<and> (\<forall>v \<in> set (mixed_values fp (in_stereo p) fs).
                    comparable fp v (lit_neg1 fp) \<and> comparable fp v (lit_1 fp) \<longrightarrow>
                    in_unit_range fp (clamp fp v (lit_neg1 fp) (lit_1 fp)))"
proof -
  have "\<exists>fs. render_frames fp p (if in_stereo p then n div 2 else n) = Inr (p', fs)
              \<and> out = map (clamp_unit fp) (mixed_values fp (in_stereo p) fs)"
  proof (cases "in_stereo p")
    case True
    then have "tick_stereo fp p n = Inr (p', out)"
      using t by (simp add: tick_def split: if_splits)
    from tick_stereo_frames[OF this] True show ?thesis by auto
  next
    case False
    then have "tick_mono fp p n = Inr (p', out)"
      using t by (simp add: tick_def split: if_splits)
    from tick_mono_frames[OF this] False show ?thesis by auto
  qed
  then obtain fs where
    fs: "render_frames fp p (if in_stereo p then n div 2 else n) = Inr (p', fs)"
    and out: "out = map (clamp_unit fp) (mixed_values fp (in_stereo p) fs)"
    by blast
  have cu: "clamp_unit fp = (\<lambda>v. clamp fp v (lit_neg1 fp) (lit_1 fp))"
    by (simp add: clamp_unit_def fun_eq_iff)
  have rng: "\<forall>v \<in> set (mixed_values fp (in_stereo p) fs).
                    comparable fp v (lit_neg1 fp) \<and> comparable fp v (lit_1 fp) \<longrightarrow>
                    in_unit_range fp (clamp fp v (lit_neg1 fp) (lit_1 fp))"
    using clamp_in_unit_range[OF lo_hi] by (auto simp: clamp_unit_def)
  show ?thesis using fs out rng unfolding cu by blast
qed

theorem tick_writes_clamped_frames_witness:
  "tick exact_fpu nan_gain_player 2 = Inr (nan_gain_after, [NaN, Fin (127 / 128)])
   \<and> f_less exact_fpu (lit_neg1 exact_fpu) (lit_1 exact_fpu)
   \<and> render_frames exact_fpu nan_gain_player 1 = Inr (nan_gain_after, [(NaN, Fin (127 / 128))])
   \<and> [NaN, Fin (127 / 128)]
       = map (\<lambda>v. clamp exact_fpu v (lit_neg1 exact_fpu) (lit_1 exact_fpu))
           (mixed_values exact_fpu True [(NaN, Fin (127 / 128))])
   \<and> comparable exact_fpu (Fin (127 / 128)) (lit_neg1 exact_fpu)
   \<and> comparable exact_fpu (Fin (127 / 128)) (lit_1 exact_fpu)
   \<and> in_unit_range exact_fpu (Fin (127 / 128))
   \<and> \<not> comparable exact_fpu NaN (lit_1 exact_fpu)
   \<and> tick exact_fpu (nan_gain_player\<lparr>in_stereo := False\<rparr>) 1
       = Inr (nan_gain_after\<lparr>in_stereo := False\<rparr>, [NaN])
   \<and> [NaN] = map (\<lambda>v. clamp exact_fpu v (lit_neg1 exact_fpu) (lit_1 exact_fpu))
                 (mixed_values exact_fpu False [(NaN, Fin (127 / 128))])"
proof -
  have lh: "f_less exact_fpu (lit_neg1 exact_fpu) (lit_1 exact_fpu)"
    by (simp add: exact_fpu_sel exact_lits)
  have st: "in_stereo nan_gain_player" by (simp add: nan_gain_player_eq)
  have rf: "render_frames exact_fpu nan_gain_player 1 = Inr (nan_gain_after, [(NaN, Fin (127 / 128))])"
    by (simp add: nan_gain_render_frame)
  from tick_writes_clamped_frames[OF nan_gain_tick lh] st rf
  have out: "[NaN, Fin (127 / 128)]
       = map (\<lambda>v. clamp exact_fpu v (lit_neg1 exact_fpu) (lit_1 exact_fpu))
           (mixed_values exact_fpu True [(NaN, Fin (127 / 128))])"
    and rng: "\<forall>v \<in> set (mixed_values exact_fpu True [(NaN, Fin (127 / 128))]).
                comparable exact_fpu v (lit_neg1 exact_fpu) \<and> comparable exact_fpu v (lit_1 exact_fpu) \<longrightarrow>
                in_unit_range exact_fpu (clamp exact_fpu v (lit_neg1 exact_fpu) (lit_1 exact_fpu))"
    by auto
  have c: "comparable exact_fpu (Fin (127 / 128)) (lit_neg1 exact_fpu)"
    "comparable exact_fpu (Fin (127 / 128)) (lit_1 exact_fpu)"
    "\<not> comparable exact_fpu NaN (lit_1 exact_fpu)"
    by (simp_all add: comparable_def exact_fpu_sel exact_lits)
  have m: "Fin (127 / 128) \<in> set (mixed_values exact_fpu True [(NaN, Fin (127 / 128))])"
    by (simp add: mixed_values_def)
  have cl: "clamp exact_fpu (Fin (127 / 128)) (lit_neg1 exact_fpu) (lit_1 exact_fpu) = Fin (127 / 128)"
    by (simp add: clamp_def exact_fpu_sel exact_lits)
  from rng m c have "in_unit_range exact_fpu (Fin (127 / 128))"
    using cl by fastforce
  moreover have "[NaN] = map (\<lambda>v. clamp exact_fpu v (lit_neg1 exact_fpu) (lit_1 exact_fpu))
                 (mixed_values exact_fpu False [(NaN, Fin (127 / 128))])"
    by (simp add: mixed_values_def clamp_def exact_fpu_sel exact_lits)
  ultimately show ?thesis using nan_gain_tick nan_gain_mono_tick lh rf out c by simp
qed

text \<open>
  C3 as stated fails: in the drum miss, the first frame creates the voice, counts it
  and marks it inactive, so \<open>on_voices\<close> is 1 when no voice is active.
\<close>

theorem drum_miss_counted_but_inactive:
  "handle_one exact_fpu drum_miss_player (Fin 0) (Fin 0) = Inr (drum_miss_after, Fin 0, Fin 0)
   \<and> on_voices drum_miss_after = 1
   \<and> active_voices drum_miss_after = 0"
  by (simp add: drum_miss_run active_voices_def upt_16 fresh_channels_def drum_miss_voice_def
        drum_miss_after_def)

text \<open>
  C3, amended. After every call of \<open>handle_one\<close> that returns, \<open>on_voices\<close> is the number
  of voices held by the channels the call mixed (the drum group, and every voice group
  with a bound program), modulo \<open>2^32\<close>: the voices that entered this frame's mix,
  whether or not the mix has just marked them inactive.
\<close>

theorem handle_one_counts_mixed_voices:
  assumes "handle_one fp p l r = Inr (p', l', r')"
  shows "on_voices p' = of_nat (mixed_voices p')"
proof -
  from assms obtain p3 where
    m: "mix_channels fp [0..<16] (p3\<lparr>on_voices := 0\<rparr>, l, r) = Inr (p', l', r')"
    by (auto simp: handle_one_def Let_def split: option.splits sum.splits if_splits)
  from mix_channels_effect[OF m] show ?thesis
    by (simp add: mixed_voices_def)
qed

theorem handle_one_counts_mixed_voices_witness:
  "handle_one exact_fpu drum_miss_player (Fin 0) (Fin 0) = Inr (drum_miss_after, Fin 0, Fin 0)
   \<and> on_voices drum_miss_after = of_nat (mixed_voices drum_miss_after)
   \<and> mixed_voices drum_miss_after = 1"
  by (intro conjI drum_miss_run handle_one_counts_mixed_voices[OF drum_miss_run]
        mixed_after_drum_miss)

text \<open>
  C4. The decoder on the stream \<open>AXSD\<close>, EndOfTrack with tick 5: \<open>ticks_end\<close> becomes 5,
  and the EndOfTrack event is indexed at tick 0, the value \<open>ticks_end\<close> had when
  \<open>emplace\<close> ran, not at the final tick 5.
\<close>

theorem load_end_of_track_indexed_at_stale_ticks_end:
  "load fp [0x41, 0x58, 0x53, 0x44, 0xFE, 0x05, 0x00, 0x00, 0x00]
     = Inr (song_init\<lparr>ticks_end := 5, commands := [(0, command_end_of_track)]\<rparr>)"
  by (simp add: load_def MAGIC_def byte_sizes_def decode_record_def le32_def emplace_def
        song_init_def)

text \<open>
  C5 as stated fails in its last clause. The patch \<open>nan_gain_patch\<close> does not loop
  (\<open>loop_start = 0xFFFFFFFF\<close>), so it meets the patch invariant; its waveform has one
  byte and its left gain is NaN. The voice at phase 11000 has \<open>here = 11000\<close>, past the
  waveform: it is marked inactive, and the loop adds \<open>0.0f * velocity * gain_L\<close> to the
  left sum, which is NaN and not 0. The left sum of the frame is NaN.
\<close>

theorem accumulate_into_runoff_adds_nan:
  "loop_start nan_gain_patch = 0xFFFFFFFF
   \<and> f_to_u32 exact_fpu (f_floor exact_fpu (f_mul exact_fpu (ratio nan_gain_patch) (phase nan_gain_voice)))
       = Some 11000
   \<and> length (waveform nan_gain_patch) \<le> unat (11000 :: U32)
   \<and> voice_group_accumulate_into exact_fpu nan_gain_patch [nan_gain_voice] (Fin 0) (Fin 0)
       = Inr ([nan_gain_voice\<lparr>active := False, phase := Fin 22000\<rparr>], NaN, Fin 0)
   \<and> NaN \<noteq> Fin 0"
  by (simp add: nan_gain_patch_def nan_gain_voice_def voice_accumulate_def fold_here_def
        Let_def exact_fpu_sel exact_lits)

text \<open>
  C5, amended. The loop of \<open>voice_group::accumulate_into\<close> over a group, against a patch
  that satisfies the patch invariant (\<open>loop_start = 0xFFFFFFFF\<close>, or
  \<open>loop_start < loop_end \<le> waveform.size()\<close>), has processed the voices \<open>before\<close> and
  reaches the voice \<open>v\<close> with the sums \<open>lk\<close>, \<open>rk\<close>; \<open>here\<close> is the index
  \<open>static_cast<U32>(std::floor(patch.ratio * v.phase))\<close>.
  When the patch loops, \<open>here > loop_end\<close> and the key is held, the index is folded to
  \<open>((here - loop_start) mod (loop_end - loop_start)) + loop_start\<close> (as a number: no
  32-bit operation wraps), the sample is read there and the voice stays as active as it
  was. When the key is released or the patch does not loop, and
  \<open>here \<ge> waveform.size()\<close>, the index is left alone, the voice is marked inactive and
  its sample is \<open>0.0f\<close>: each sum receives \<open>0.0f * velocity * gain\<close> (NaN, not 0, when
  the gain is NaN). In both cases the phase advances by \<open>phase_add_by\<close>, and the loop
  goes on over the rest of the group from these sums.
\<close>

theorem accumulate_into_loop_fold_and_runoff:
  fixes patch :: "'f patch_t"
  assumes inv: "loop_start patch = 0xFFFFFFFF
                \<or> (loop_start patch < loop_end patch
                    \<and> unat (loop_end patch) \<le> length (waveform patch))"
    and pre: "voice_group_accumulate_into fp patch before l r = Inr (before', lk, rk)"
    and here: "f_to_u32 fp (f_floor fp (f_mul fp (ratio patch) (phase v))) = Some here"
  shows "(loop_start patch \<noteq> 0xFFFFFFFF \<and> loop_end patch < here \<and> key v \<longrightarrow>
            (\<exists>w. w = (here - loop_start patch) mod (loop_end patch - loop_start patch)
                        + loop_start patch
                 \<and> unat w = (unat here - unat (loop_start patch))
                               mod (unat (loop_end patch) - unat (loop_start patch))
                             + unat (loop_start patch)
                 \<and> fold_here patch (key v) here = Some w
                 \<and> voice_group_accumulate_into fp patch (before @ [v]) l r =
                     Inr (before' @ [v\<lparr>phase := f_add fp (phase v) (phase_add_by v)\<rparr>],
                          f_add fp lk (f_mul fp (f_mul fp (sample_at fp (waveform patch) w) (velocity v))
                                         (gain_L patch)),
                          f_add fp rk (f_mul fp (f_mul fp (sample_at fp (waveform patch) w) (velocity v))
                                         (gain_R patch)))))
       \<and> ((\<not> key v \<or> loop_start patch = 0xFFFFFFFF) \<and> length (waveform patch) \<le> unat here \<longrightarrow>
            fold_here patch (key v) here = Some here
            \<and> voice_group_accumulate_into fp patch (before @ [v]) l r =
                Inr (before' @ [v\<lparr>active := False, phase := f_add fp (phase v) (phase_add_by v)\<rparr>],
                     f_add fp lk (f_mul fp (f_mul fp (lit_0 fp) (velocity v)) (gain_L patch)),
                     f_add fp rk (f_mul fp (f_mul fp (lit_0 fp) (velocity v)) (gain_R patch))))
       \<and> (voice_group_accumulate_into fp patch (before @ [v]) l r = Inr (vs1, l1, r1)
          \<and> voice_group_accumulate_into fp patch rest l1 r1 = Inr (ws, l2, r2) \<longrightarrow>
            voice_group_accumulate_into fp patch (before @ v # rest) l r = Inr (vs1 @ ws, l2, r2))"
proof (intro conjI impI)
  assume a: "loop_start patch \<noteq> 0xFFFFFFFF \<and> loop_end patch < here \<and> key v"
  then have lt: "loop_start patch < loop_end patch"
    and len: "unat (loop_end patch) \<le> length (waveform patch)"
    using inv by auto
  from voice_accumulate_looping[OF _ lt len here, of lk rk] a
  obtain w where weq: "w = (here - loop_start patch) mod (loop_end patch - loop_start patch)
                        + loop_start patch"
    and uw: "unat w = (unat here - unat (loop_start patch))
                               mod (unat (loop_end patch) - unat (loop_start patch))
                             + unat (loop_start patch)"
    and f: "fold_here patch (key v) here = Some w"
    and va: "voice_accumulate fp patch v lk rk =
               Inr (v\<lparr>phase := f_add fp (phase v) (phase_add_by v)\<rparr>,
                    f_add fp lk (f_mul fp (f_mul fp (sample_at fp (waveform patch) w) (velocity v))
                                   (gain_L patch)),
                    f_add fp rk (f_mul fp (f_mul fp (sample_at fp (waveform patch) w) (velocity v))
                                   (gain_R patch)))"
    by blast
  from voice_group_accumulate_into_snoc[OF pre va] weq uw f
  show "\<exists>w. w = (here - loop_start patch) mod (loop_end patch - loop_start patch)
                        + loop_start patch
                 \<and> unat w = (unat here - unat (loop_start patch))
                               mod (unat (loop_end patch) - unat (loop_start patch))
                             + unat (loop_start patch)
                 \<and> fold_here patch (key v) here = Some w
                 \<and> voice_group_accumulate_into fp patch (before @ [v]) l r =
                     Inr (before' @ [v\<lparr>phase := f_add fp (phase v) (phase_add_by v)\<rparr>],
                          f_add fp lk (f_mul fp (f_mul fp (sample_at fp (waveform patch) w) (velocity v))
                                         (gain_L patch)),
                          f_add fp rk (f_mul fp (f_mul fp (sample_at fp (waveform patch) w) (velocity v))
                                         (gain_R patch)))"
    by blast
next
  assume b: "(\<not> key v \<or> loop_start patch = 0xFFFFFFFF) \<and> length (waveform patch) \<le> unat here"
  then show "fold_here patch (key v) here = Some here"
    using voice_accumulate_runoff(1)[OF here] by blast
next
  assume b: "(\<not> key v \<or> loop_start patch = 0xFFFFFFFF) \<and> length (waveform patch) \<le> unat here"
  then have b1: "\<not> key v \<or> loop_start patch = 0xFFFFFFFF"
    and b2: "length (waveform patch) \<le> unat here" by auto
  show "voice_group_accumulate_into fp patch (before @ [v]) l r =
                Inr (before' @ [v\<lparr>active := False, phase := f_add fp (phase v) (phase_add_by v)\<rparr>],
                     f_add fp lk (f_mul fp (f_mul fp (lit_0 fp) (velocity v)) (gain_L patch)),
                     f_add fp rk (f_mul fp (f_mul fp (lit_0 fp) (velocity v)) (gain_R patch)))"
    by (rule voice_group_accumulate_into_snoc[OF pre voice_accumulate_runoff(2)[OF here b1 b2]])
next
  assume c: "voice_group_accumulate_into fp patch (before @ [v]) l r = Inr (vs1, l1, r1)
          \<and> voice_group_accumulate_into fp patch rest l1 r1 = Inr (ws, l2, r2)"
  then have c1: "voice_group_accumulate_into fp patch (before @ [v]) l r = Inr (vs1, l1, r1)"
    and c2: "voice_group_accumulate_into fp patch rest l1 r1 = Inr (ws, l2, r2)" by auto
  have "voice_group_accumulate_into fp patch ((before @ [v]) @ rest) l r = Inr (vs1 @ ws, l2, r2)"
    by (rule voice_group_accumulate_into_append[OF c1 c2])
  then show "voice_group_accumulate_into fp patch (before @ v # rest) l r = Inr (vs1 @ ws, l2, r2)"
    by simp
qed

text \<open>
  A group of three voices at phase 6 against a looping patch of four bytes
  (\<open>loop_start = 0\<close>, \<open>loop_end = 4\<close>, gains 1 and 1/2). The first and the third hold
  their key: the index folds to 2, where the byte 0 gives the sample \<open>-1\<close>. The second
  has released its key: it runs off the end, is marked inactive and leaves the sums as
  they were.
\<close>

theorem accumulate_into_loop_fold_and_runoff_witness:
  "(loop_start loop_patch = 0xFFFFFFFF
      \<or> (loop_start loop_patch < loop_end loop_patch
          \<and> unat (loop_end loop_patch) \<le> length (waveform loop_patch)))
   \<and> f_to_u32 exact_fpu (f_floor exact_fpu (f_mul exact_fpu (ratio loop_patch) (phase (loop_voice True))))
       = Some 6
   \<and> f_to_u32 exact_fpu (f_floor exact_fpu (f_mul exact_fpu (ratio loop_patch) (phase (loop_voice False))))
       = Some 6
   \<and> loop_end loop_patch < 6 \<and> key (loop_voice True)
   \<and> fold_here loop_patch True 6 = Some 2
   \<and> voice_group_accumulate_into exact_fpu loop_patch [loop_voice True] (Fin 0) (Fin 0)
       = Inr ([(loop_voice True)\<lparr>phase := Fin 7\<rparr>], Fin (- 1), Fin (- 1 / 2))
   \<and> \<not> key (loop_voice False) \<and> length (waveform loop_patch) \<le> unat (6 :: U32)
   \<and> voice_group_accumulate_into exact_fpu loop_patch [loop_voice True, loop_voice False] (Fin 0) (Fin 0)
       = Inr ([(loop_voice True)\<lparr>phase := Fin 7\<rparr>,
               (loop_voice False)\<lparr>active := False, phase := Fin 7\<rparr>], Fin (- 1), Fin (- 1 / 2))
   \<and> voice_group_accumulate_into exact_fpu loop_patch [loop_voice True] (Fin (- 1)) (Fin (- 1 / 2))
       = Inr ([(loop_voice True)\<lparr>phase := Fin 7\<rparr>], Fin (- 2), Fin (- 1))
   \<and> voice_group_accumulate_into exact_fpu loop_patch
        [loop_voice True, loop_voice False, loop_voice True] (Fin 0) (Fin 0)
       = Inr ([(loop_voice True)\<lparr>phase := Fin 7\<rparr>,
               (loop_voice False)\<lparr>active := False, phase := Fin 7\<rparr>,
               (loop_voice True)\<lparr>phase := Fin 7\<rparr>], Fin (- 2), Fin (- 1))"
proof -
  have inv: "loop_start loop_patch = 0xFFFFFFFF
      \<or> (loop_start loop_patch < loop_end loop_patch
          \<and> unat (loop_end loop_patch) \<le> length (waveform loop_patch))"
    by (simp add: loop_patch_def)
  have h: "f_to_u32 exact_fpu (f_floor exact_fpu (f_mul exact_fpu (ratio loop_patch) (phase (loop_voice k))))
       = Some 6" for k
    by (simp add: loop_patch_def loop_voice_def exact_fpu_sel)
  have p0: "voice_group_accumulate_into exact_fpu loop_patch [] (Fin 0) (Fin 0) = Inr ([], Fin 0, Fin 0)"
    by simp
  have p1: "voice_group_accumulate_into exact_fpu loop_patch [] (Fin (- 1)) (Fin (- 1 / 2))
              = Inr ([], Fin (- 1), Fin (- 1 / 2))"
    by simp
  note t1 = accumulate_into_loop_fold_and_runoff[OF inv p0 h, of True]
  note t3 = accumulate_into_loop_fold_and_runoff[OF inv p1 h, of True]
  have s: "sample_at exact_fpu (waveform loop_patch) 2 = Fin (- 1)"
    by (simp add: sample_at_def loop_patch_def exact_fpu_sel exact_lits ieee_sub_def)
  have c1: "loop_end loop_patch < 6" "key (loop_voice True)" "loop_start loop_patch \<noteq> 0xFFFFFFFF"
    by (simp_all add: loop_patch_def loop_voice_def)
  have c2: "\<not> key (loop_voice False)" "length (waveform loop_patch) \<le> unat (6 :: U32)"
    by (simp_all add: loop_patch_def loop_voice_def)
  have w2: "((6 :: U32) - loop_start loop_patch) mod (loop_end loop_patch - loop_start loop_patch)
            + loop_start loop_patch = 2"
    by (simp add: loop_patch_def)
  from t1 c1 w2 have f1: "fold_here loop_patch True 6 = Some 2" by simp
  from t1 c1 w2 have "voice_group_accumulate_into exact_fpu loop_patch ([] @ [loop_voice True]) (Fin 0) (Fin 0) =
        Inr ([] @ [(loop_voice True)\<lparr>phase := f_add exact_fpu (phase (loop_voice True)) (phase_add_by (loop_voice True))\<rparr>],
             f_add exact_fpu (Fin 0) (f_mul exact_fpu (f_mul exact_fpu (sample_at exact_fpu (waveform loop_patch) 2) (velocity (loop_voice True))) (gain_L loop_patch)),
             f_add exact_fpu (Fin 0) (f_mul exact_fpu (f_mul exact_fpu (sample_at exact_fpu (waveform loop_patch) 2) (velocity (loop_voice True))) (gain_R loop_patch)))"
    by simp
  then have r1: "voice_group_accumulate_into exact_fpu loop_patch [loop_voice True] (Fin 0) (Fin 0)
       = Inr ([(loop_voice True)\<lparr>phase := Fin 7\<rparr>], Fin (- 1), Fin (- 1 / 2))"
    using s by (simp add: loop_patch_def loop_voice_def exact_fpu_sel)
  from t3 c1 w2 have "voice_group_accumulate_into exact_fpu loop_patch ([] @ [loop_voice True]) (Fin (- 1)) (Fin (- 1 / 2)) =
        Inr ([] @ [(loop_voice True)\<lparr>phase := f_add exact_fpu (phase (loop_voice True)) (phase_add_by (loop_voice True))\<rparr>],
             f_add exact_fpu (Fin (- 1)) (f_mul exact_fpu (f_mul exact_fpu (sample_at exact_fpu (waveform loop_patch) 2) (velocity (loop_voice True))) (gain_L loop_patch)),
             f_add exact_fpu (Fin (- 1 / 2)) (f_mul exact_fpu (f_mul exact_fpu (sample_at exact_fpu (waveform loop_patch) 2) (velocity (loop_voice True))) (gain_R loop_patch)))"
    by simp
  then have r3: "voice_group_accumulate_into exact_fpu loop_patch [loop_voice True] (Fin (- 1)) (Fin (- 1 / 2))
       = Inr ([(loop_voice True)\<lparr>phase := Fin 7\<rparr>], Fin (- 2), Fin (- 1))"
    using s by (simp add: loop_patch_def loop_voice_def exact_fpu_sel)
  note t2 = accumulate_into_loop_fold_and_runoff[OF inv r1 h, of False, where
      ?vs1.0 = "[(loop_voice True)\<lparr>phase := Fin 7\<rparr>, (loop_voice False)\<lparr>active := False, phase := Fin 7\<rparr>]"
      and ?l1.0 = "Fin (- 1)" and ?r1.0 = "Fin (- 1 / 2)" and rest = "[loop_voice True]"
      and ws = "[(loop_voice True)\<lparr>phase := Fin 7\<rparr>]"
      and ?l2.0 = "Fin (- 2)" and ?r2.0 = "Fin (- 1)"]
  from t2 c2 have "voice_group_accumulate_into exact_fpu loop_patch ([loop_voice True] @ [loop_voice False]) (Fin 0) (Fin 0) =
        Inr ([(loop_voice True)\<lparr>phase := Fin 7\<rparr>] @
             [(loop_voice False)\<lparr>active := False, phase := f_add exact_fpu (phase (loop_voice False)) (phase_add_by (loop_voice False))\<rparr>],
             f_add exact_fpu (Fin (- 1)) (f_mul exact_fpu (f_mul exact_fpu (lit_0 exact_fpu) (velocity (loop_voice False))) (gain_L loop_patch)),
             f_add exact_fpu (Fin (- 1 / 2)) (f_mul exact_fpu (f_mul exact_fpu (lit_0 exact_fpu) (velocity (loop_voice False))) (gain_R loop_patch)))"
    by simp
  then have r2: "voice_group_accumulate_into exact_fpu loop_patch [loop_voice True, loop_voice False] (Fin 0) (Fin 0)
       = Inr ([(loop_voice True)\<lparr>phase := Fin 7\<rparr>,
               (loop_voice False)\<lparr>active := False, phase := Fin 7\<rparr>], Fin (- 1), Fin (- 1 / 2))"
    by (simp add: loop_patch_def loop_voice_def exact_fpu_sel exact_lits)
  from t2 r2 r3 have r4: "voice_group_accumulate_into exact_fpu loop_patch
        [loop_voice True, loop_voice False, loop_voice True] (Fin 0) (Fin 0)
       = Inr ([(loop_voice True)\<lparr>phase := Fin 7\<rparr>,
               (loop_voice False)\<lparr>active := False, phase := Fin 7\<rparr>,
               (loop_voice True)\<lparr>phase := Fin 7\<rparr>], Fin (- 2), Fin (- 1))"
    by simp
  show ?thesis
    using inv h[of True] h[of False] c1 c2 f1 r1 r2 r3 r4 by simp
qed






text \<open>
  C8. \<open>pause\<close> sets \<open>playback\<close> to false and leaves every other member of the player
  as it was; pausing twice is pausing once.
\<close>

theorem pause_only_clears_playback:
  "playback (pause p) = False
   \<and> seconds_elapsed (pause p) = seconds_elapsed p
   \<and> seconds_end (pause p) = seconds_end p
   \<and> frequency (pause p) = frequency p
   \<and> max_voices (pause p) = max_voices p
   \<and> on_voices (pause p) = on_voices p
   \<and> echo_buffer_L (pause p) = echo_buffer_L p
   \<and> echo_buffer_R (pause p) = echo_buffer_R p
   \<and> echo_cursor (pause p) = echo_cursor p
   \<and> env_params (pause p) = env_params p
   \<and> cursor (pause p) = cursor p
   \<and> last_cursor (pause p) = last_cursor p
   \<and> current (pause p) = current p
   \<and> in_stereo (pause p) = in_stereo p
   \<and> channels (pause p) = channels p
   \<and> patch_ids (pause p) = patch_ids p
   \<and> player.more (pause p) = player.more p
   \<and> pause (pause p) = pause p"
  by (simp add: pause_def)




text \<open>
  C10 as stated fails for NoteOn: with the voice budget used up (\<open>max_voices = 0\<close> here)
  a NoteOn on channel 16 is dropped before any array is indexed, and the frame is
  rendered.
\<close>

theorem note_on_past_budget_indexes_nothing:
  "16 \<le> unat (16 :: U8)
   \<and> dispatch exact_fpu (command_note_on 16 60 100) budget_player = Inr budget_player
   \<and> handle_one exact_fpu budget_player (Fin 0) (Fin 0)
       = Inr (budget_player\<lparr>last_cursor := Some 0\<rparr>, Fin 0, Fin 0)"
  by (simp add: budget_run) (simp add: budget_player_eq)

text \<open>
  C10, amended. The channel byte is used unchecked. A NoteOff, PitchWheel or
  ProgramChange with channel 16 or more, and a NoteOn with such a channel dispatched
  while \<open>on_voices < max_voices\<close>, indexes past the end of a 16-entry array (\<open>channels\<close>
  for NoteOn, NoteOff and PitchWheel, \<open>patch_ids\<close> for ProgramChange); a NoteOn
  dispatched while \<open>on_voices \<ge> max_voices\<close> is dropped before any access; with a
  channel of at most 15 and a group behind the pointer no dispatch is undefined. The
  decoder stores the channel byte of all four events as it stands in the stream.
\<close>

theorem channel_byte_unchecked:
  "(16 \<le> unat ch \<longrightarrow>
      dispatch fp (command_note_off ch) p = Inl undefined_behaviour
      \<and> dispatch fp (command_pitchwheel ch b) p = Inl undefined_behaviour
      \<and> dispatch fp (command_program_change ch prog) p = Inl undefined_behaviour
      \<and> (on_voices p < max_voices p \<longrightarrow>
           dispatch fp (command_note_on ch n vel) p = Inl undefined_behaviour))
   \<and> (max_voices p \<le> on_voices p \<longrightarrow> dispatch fp (command_note_on ch n vel) p = Inr p)
   \<and> (unat ch < 16 \<and> channels p (unat ch) \<noteq> nullptr \<longrightarrow>
        dispatch fp (command_note_on ch n vel) p \<noteq> Inl undefined_behaviour
        \<and> dispatch fp (command_note_off ch) p \<noteq> Inl undefined_behaviour
        \<and> dispatch fp (command_pitchwheel ch b) p \<noteq> Inl undefined_behaviour
        \<and> dispatch fp (command_program_change ch prog) p \<noteq> Inl undefined_behaviour)
   \<and> load_records fp (0x01 # t0 # t1 # t2 # t3 # ch # n # vel # bytes) s
       = load_records fp bytes (emplace s (le32 [t0, t1, t2, t3] 0) (command_note_on ch n vel))
   \<and> load_records fp (0x02 # t0 # t1 # t2 # t3 # ch # bytes) s
       = load_records fp bytes (emplace s (le32 [t0, t1, t2, t3] 0) (command_note_off ch))
   \<and> load_records fp (0x03 # t0 # t1 # t2 # t3 # ch # b0 # b1 # b2 # b3 # bytes) s
       = load_records fp bytes
           (emplace s (le32 [t0, t1, t2, t3] 0) (command_pitchwheel ch (le32 [b0, b1, b2, b3] 0)))
   \<and> load_records fp (0x04 # t0 # t1 # t2 # t3 # ch # prog # bytes) s
       = load_records fp bytes (emplace s (le32 [t0, t1, t2, t3] 0) (command_program_change ch prog))"
proof -
  have c1: "16 \<le> unat ch \<longrightarrow>
      dispatch fp (command_note_off ch) p = Inl undefined_behaviour
      \<and> dispatch fp (command_pitchwheel ch b) p = Inl undefined_behaviour
      \<and> dispatch fp (command_program_change ch prog) p = Inl undefined_behaviour
      \<and> (on_voices p < max_voices p \<longrightarrow>
           dispatch fp (command_note_on ch n vel) p = Inl undefined_behaviour)"
    by simp
  have c2: "max_voices p \<le> on_voices p \<longrightarrow> dispatch fp (command_note_on ch n vel) p = Inr p"
    using leD[of "max_voices p" "on_voices p"] by auto
  have c3: "unat ch < 16 \<and> channels p (unat ch) \<noteq> nullptr \<longrightarrow>
        dispatch fp (command_note_on ch n vel) p \<noteq> Inl undefined_behaviour
        \<and> dispatch fp (command_note_off ch) p \<noteq> Inl undefined_behaviour
        \<and> dispatch fp (command_pitchwheel ch b) p \<noteq> Inl undefined_behaviour
        \<and> dispatch fp (command_program_change ch prog) p \<noteq> Inl undefined_behaviour"
    by (cases "channels p (unat ch)") (simp_all add: Let_def)
  show ?thesis
    by (intro conjI c1 c2 c3 load_records_note_on load_records_note_off load_records_pitchwheel
          load_records_program_change)
qed

theorem channel_byte_unchecked_witness:
  "16 \<le> unat (16 :: U8)
   \<and> on_voices playing_player < max_voices playing_player
   \<and> dispatch exact_fpu (command_note_on 16 60 100) playing_player = Inl undefined_behaviour
   \<and> dispatch exact_fpu (command_note_off 16) playing_player = Inl undefined_behaviour
   \<and> dispatch exact_fpu (command_pitchwheel 16 4096) playing_player = Inl undefined_behaviour
   \<and> dispatch exact_fpu (command_program_change 16 7) playing_player = Inl undefined_behaviour
   \<and> max_voices budget_player \<le> on_voices budget_player
   \<and> dispatch exact_fpu (command_note_on 200 60 100) budget_player = Inr budget_player
   \<and> unat (3 :: U8) < 16 \<and> channels budget_player (unat (3 :: U8)) \<noteq> nullptr
   \<and> dispatch exact_fpu (command_program_change 3 7) budget_player \<noteq> Inl undefined_behaviour
   \<and> load_records exact_fpu [0x04, 0, 0, 0, 0, 200, 7] song_init
       = Inr (song_init\<lparr>commands := [(0, command_program_change 200 7)]\<rparr>)"
proof -
  have h1: "16 \<le> unat (16 :: U8)" by simp
  have h2: "on_voices playing_player < max_voices playing_player"
    by (simp add: playing_player_def player_new_def)
  have h3: "max_voices budget_player \<le> on_voices budget_player"
    by (simp add: budget_player_eq)
  have h4: "unat (3 :: U8) < 16 \<and> channels budget_player (unat (3 :: U8)) \<noteq> nullptr"
    by (simp add: budget_player_eq fresh_channels_def)
  note t1 = channel_byte_unchecked[of 16 exact_fpu playing_player 4096 7 60 100]
  note t2 = channel_byte_unchecked[of 200 exact_fpu budget_player 0 7 60 100 0 0 0 0 "[]" song_init]
  note t3 = channel_byte_unchecked[of 3 exact_fpu budget_player 0 7 60 100]
  have l: "load_records exact_fpu [0x04, 0, 0, 0, 0, 200, 7] song_init
       = Inr (song_init\<lparr>commands := [(0, command_program_change 200 7)]\<rparr>)"
    using t2 by (simp add: emplace_def le32_def song_init_def)
  show ?thesis using h1 h2 h3 h4 t1 t2 t3 l by simp
qed

end
